theory Spec2Isabelle
  imports Main
begin

section \<open>Values, JSON documents and exceptions\<close>

text \<open>
  The gateway of \<^verbatim>\<open>filemaker_mcp_server.py\<close> moves three kinds of data: scalar values
  bound to and fetched from SQL statements, JSON documents (the text of every response is
  \<^verbatim>\<open>json.dumps\<close> of a dictionary), and Python exceptions. A response text is modelled by
  the document that is dumped, the object's keys in insertion order; the layout options of
  \<^verbatim>\<open>json.dumps\<close> (\<^verbatim>\<open>indent\<close>, \<^verbatim>\<open>default=str\<close>) are not modelled.
\<close>

datatype sqlval = Null | IntV int | StrV string

datatype json =
    JNull
  | JBool bool
  | JInt int
  | JStr string
  | JArr "json list"
  | JObj "(string \<times> json) list"

text \<open>
  The exceptions the code can meet: a missing dictionary key, the \<^verbatim>\<open>RuntimeError\<close> and
  \<^verbatim>\<open>ValueError\<close> the code raises itself, an error of the ODBC driver, carried as the
  text \<^verbatim>\<open>str(e)\<close> gives, and the \<^verbatim>\<open>ValidationError\<close> with which a protocol type
  refuses a field value, carried as the name of the type.
\<close>

datatype exn =
    KeyError string
  | RuntimeError string
  | ValueError string
  | OdbcError string
  | ValidationError string

text \<open>\<^verbatim>\<open>str(e)\<close>: a \<^verbatim>\<open>KeyError\<close> prints the key between single quotes.\<close>

fun str_exn :: "exn \<Rightarrow> string" where
  "str_exn (KeyError k) = [CHR 0x27] @ k @ [CHR 0x27]"
| "str_exn (RuntimeError m) = m"
| "str_exn (ValueError m) = m"
| "str_exn (OdbcError m) = m"
| "str_exn (ValidationError m) = m"

subsection \<open>Python helpers\<close>

text \<open>
  A Python dictionary keeps its keys in insertion order; assigning to a key that is there
  replaces the value in place. \<open>dict\<close> is the constructor from a sequence of pairs.
\<close>

fun dict_set :: "'k \<Rightarrow> 'v \<Rightarrow> ('k \<times> 'v) list \<Rightarrow> ('k \<times> 'v) list" where
  "dict_set k v [] = [(k, v)]"
| "dict_set k v ((k', v') # d) =
     (if k' = k then (k', v) # d else (k', v') # dict_set k v d)"

fun dict_from :: "('k \<times> 'v) list \<Rightarrow> ('k \<times> 'v) list \<Rightarrow> ('k \<times> 'v) list" where
  "dict_from d [] = d"
| "dict_from d ((k, v) # ps) = dict_from (dict_set k v d) ps"

definition dict :: "('k \<times> 'v) list \<Rightarrow> ('k \<times> 'v) list" where
  "dict ps = dict_from [] ps"

text \<open>\<^verbatim>\<open>sep.join(xs)\<close>.\<close>

fun join :: "string \<Rightarrow> string list \<Rightarrow> string" where
  "join sep [] = []"
| "join sep [x] = x"
| "join sep (x # y # ys) = x @ sep @ join sep (y # ys)"

text \<open>\<^verbatim>\<open>str(n)\<close> of an integer, in decimal.\<close>

function str_nat :: "nat \<Rightarrow> string" where
  "str_nat n = (if n < 10 then [''0123456789'' ! n]
                else str_nat (n div 10) @ [''0123456789'' ! (n mod 10)])"
  by pat_completeness auto
termination
  by (relation "measure (\<lambda>n. n)") auto

declare str_nat.simps [simp del]

definition str_int :: "int \<Rightarrow> string" where
  "str_int i = (if i < 0 then ''-'' @ str_nat (nat (- i)) else str_nat (nat i))"

text \<open>\<^verbatim>\<open>s.startswith(p)\<close>.\<close>

definition startswith :: "string \<Rightarrow> string \<Rightarrow> bool" where
  "startswith s p = (take (length p) s = p)"

text \<open>
  \<^verbatim>\<open>s.replace(old, new)\<close> for a non-empty \<open>old\<close>: every occurrence, left to right,
  without overlap. (The code calls it with \<open>old = "filemaker://"\<close> only; for an empty
  \<open>old\<close> the model returns \<open>s\<close>.)
\<close>

function replace :: "string \<Rightarrow> string \<Rightarrow> string \<Rightarrow> string" where
  "replace old new s =
     (if old = [] \<or> s = [] then s
      else if startswith s old then new @ replace old new (drop (length old) s)
      else hd s # replace old new (tl s))"
  by pat_completeness auto
termination
  by (relation "measure (\<lambda>(old, new, s). length s)") (auto simp: neq_Nil_conv)

declare replace.simps [simp del]

section \<open>The ODBC driver\<close>

text \<open>
  \<^verbatim>\<open>pyodbc\<close> and the FileMaker databases behind it are not part of the repository. They
  are a parameter of the model: a record of functions that say what the driver answers to
  each call (\<open>Inl\<close> is the message of the error it raises). A data source is addressed by the
  connection string it was opened with.

  \<^item> \<open>odbc_connect cs\<close>: \<^verbatim>\<open>pyodbc.connect(cs)\<close>;
  \<^item> \<open>odbc_execute cs sql params\<close>: \<^verbatim>\<open>cursor.execute(sql)\<close> when \<open>params\<close> is \<open>None\<close>,
    \<^verbatim>\<open>cursor.execute(sql, params)\<close> otherwise; it gives the cursor's state afterwards;
  \<^item> \<open>odbc_commit cs\<close>: \<^verbatim>\<open>connection.commit()\<close>;
  \<^item> \<open>odbc_tables cs\<close>: the rows of \<^verbatim>\<open>cursor.tables()\<close>, as pairs of \<^verbatim>\<open>table_name\<close>
    and \<^verbatim>\<open>table_type\<close>;
  \<^item> \<open>odbc_columns cs table\<close>: the rows of \<^verbatim>\<open>cursor.columns(table=table)\<close>;
  \<^item> \<open>odbc_fetch_negative\<close>: what \<^verbatim>\<open>fetchmany\<close> delivers for a negative size, which the
    DB-API leaves to the driver.
\<close>

record cursor =
  description :: "string list option"
  pending :: "string + sqlval list list"
  rowcount :: int

record column_row =
  column_name :: string
  type_name :: string
  column_size :: "int option"
  nullable :: int

record driver =
  odbc_connect :: "string \<Rightarrow> string + unit"
  odbc_execute :: "string \<Rightarrow> string \<Rightarrow> sqlval list option \<Rightarrow> string + cursor"
  odbc_commit :: "string \<Rightarrow> string + unit"
  odbc_tables :: "string \<Rightarrow> string + (string \<times> string) list"
  odbc_columns :: "string \<Rightarrow> string \<Rightarrow> string + column_row list"
  odbc_fetch_negative :: "int \<Rightarrow> sqlval list list \<Rightarrow> sqlval list list"

text \<open>
  \<^verbatim>\<open>cursor.fetchmany(size)\<close>: the DB-API delivers the next rows of the result, at most
  \<open>size\<close> of them, fewer when the result has fewer.
\<close>

definition fetchmany :: "driver \<Rightarrow> int \<Rightarrow> sqlval list list \<Rightarrow> sqlval list list" where
  "fetchmany D size' rows =
     (if 0 \<le> size' then take (nat size') rows else odbc_fetch_negative D size' rows)"

section \<open>Connections\<close>

record FileMakerConfig =
  dsn :: string
  username :: string
  password :: string
  database :: string

text \<open>
  A driver handle is what \<^verbatim>\<open>pyodbc.connect\<close> returns: every successful call gives a new
  one, told apart by its serial number. A \<^verbatim>\<open>FileMakerConnection\<close> object is its
  configuration and its \<^verbatim>\<open>_connection\<close> field. The server shares such an object (through
  the registry) only once \<^verbatim>\<open>connect\<close> has set the field, and never calls
  \<^verbatim>\<open>close\<close>, so a shared object is never mutated: it is modelled by its value, and
  two registry entries are the same object exactly when they hold the same handle.
\<close>

record handle =
  serial :: nat
  source :: string

record FileMakerConnection =
  config :: FileMakerConfig
  connection :: "handle option"

text \<open>The calls that reach the driver, in the order they are made.\<close>

datatype event =
    Connect string
  | Execute handle string "sqlval list option"
  | Fetchmany handle int
  | Commit handle
  | Tables handle
  | Columns handle string

text \<open>
  The state that \<^verbatim>\<open>create_server\<close> closes over: the configuration, the registry
  \<^verbatim>\<open>connections\<close>, and, for the model, the trace of driver calls and the serial number
  of the next handle.
\<close>

record server =
  fm_config :: FileMakerConfig
  connections :: "string \<rightharpoonup> FileMakerConnection"
  trace :: "event list"
  next_serial :: nat

definition create_server :: "FileMakerConfig \<Rightarrow> server" where
  "create_server cfg =
     \<lparr>fm_config = cfg, connections = Map.empty, trace = [], next_serial = 0\<rparr>"

definition connection_string :: "FileMakerConfig \<Rightarrow> string \<Rightarrow> string" where
  "connection_string cfg name =
     (let db = (if name \<noteq> [] then name else database cfg);
          conn_parts = [''DSN='' @ dsn cfg]
            @ (if db \<noteq> [] then [''ServerDataSource='' @ db] else [])
            @ (if username cfg \<noteq> [] then [''UID='' @ username cfg] else [])
            @ (if password cfg \<noteq> [] then [''PWD='' @ password cfg] else [])
      in join '';'' conn_parts)"

text \<open>
  \<^verbatim>\<open>FileMakerConnection.connect\<close>: the object with its handle set, or the driver's error
  (logged and raised again by the code).
\<close>

definition connect ::
  "driver \<Rightarrow> FileMakerConnection \<Rightarrow> string \<Rightarrow> server \<Rightarrow> (exn + FileMakerConnection) \<times> server" where
  "connect D self name s =
     (let cs = connection_string (config self) name;
          s1 = s\<lparr>trace := trace s @ [Connect cs]\<rparr>
      in case odbc_connect D cs of
           Inl msg \<Rightarrow> (Inl (OdbcError msg), s1)
         | Inr _ \<Rightarrow>
             (Inr (self\<lparr>connection := Some \<lparr>serial = next_serial s, source = cs\<rparr>\<rparr>),
              s1\<lparr>next_serial := Suc (next_serial s)\<rparr>))"

text \<open>\<^verbatim>\<open>get_connection\<close>: get or create the connection of a database.\<close>

definition get_connection ::
  "driver \<Rightarrow> server \<Rightarrow> string \<Rightarrow> (exn + FileMakerConnection) \<times> server" where
  "get_connection D s name =
     (case connections s name of
        Some conn \<Rightarrow> (Inr conn, s)
      | None \<Rightarrow>
          (case connect D \<lparr>config = fm_config s, connection = None\<rparr> name s of
             (Inl e, s1) \<Rightarrow> (Inl e, s1)
           | (Inr conn, s1) \<Rightarrow> (Inr conn, s1\<lparr>connections := (connections s1)(name \<mapsto> conn)\<rparr>)))"

section \<open>The query executor and the schema introspector\<close>

text \<open>
  \<^verbatim>\<open>if params:\<close> is false for \<^verbatim>\<open>None\<close> and for the empty tuple: the statement is then
  executed without parameters.
\<close>

definition bound_params :: "sqlval list option \<Rightarrow> sqlval list option" where
  "bound_params params = (case params of Some (p # ps) \<Rightarrow> Some (p # ps) | _ \<Rightarrow> None)"

text \<open>
  \<^verbatim>\<open>execute_query\<close>: the statement goes to the driver as it is, the rows come from
  \<^verbatim>\<open>fetchmany(limit)\<close>, and each row becomes \<^verbatim>\<open>dict(zip(columns, row))\<close>, the
  columns being the names in \<^verbatim>\<open>cursor.description\<close> (none when it is \<^verbatim>\<open>None\<close>). The
  \<^verbatim>\<open>finally\<close> clause closes the cursor on every path; the cursor is not part of the state.
\<close>

definition column_names :: "cursor \<Rightarrow> string list" where
  "column_names cur = (case description cur of None \<Rightarrow> [] | Some descs \<Rightarrow> descs)"

definition execute_query ::
  "driver \<Rightarrow> FileMakerConnection \<Rightarrow> string \<Rightarrow> sqlval list option \<Rightarrow> int \<Rightarrow> server
     \<Rightarrow> (exn + (string \<times> sqlval) list list) \<times> server" where
  "execute_query D self query params limit s =
     (case connection self of
        None \<Rightarrow> (Inl (RuntimeError ''Not connected to database''), s)
      | Some h \<Rightarrow>
          (let s1 = s\<lparr>trace := trace s @ [Execute h query (bound_params params)]\<rparr>
           in case odbc_execute D (source h) query (bound_params params) of
                Inl msg \<Rightarrow> (Inl (OdbcError msg), s1)
              | Inr cur \<Rightarrow>
                  (let columns = column_names cur;
                       s2 = s1\<lparr>trace := trace s1 @ [Fetchmany h limit]\<rparr>
                   in case pending cur of
                        Inl msg \<Rightarrow> (Inl (OdbcError msg), s2)
                      | Inr rows \<Rightarrow>
                          (Inr (map (\<lambda>row. dict (zip columns row)) (fetchmany D limit rows)),
                           s2))))"

text \<open>\<^verbatim>\<open>execute_update\<close>: execute, commit, and return the cursor's row count.\<close>

definition execute_update ::
  "driver \<Rightarrow> FileMakerConnection \<Rightarrow> string \<Rightarrow> sqlval list option \<Rightarrow> server
     \<Rightarrow> (exn + int) \<times> server" where
  "execute_update D self query params s =
     (case connection self of
        None \<Rightarrow> (Inl (RuntimeError ''Not connected to database''), s)
      | Some h \<Rightarrow>
          (let s1 = s\<lparr>trace := trace s @ [Execute h query (bound_params params)]\<rparr>
           in case odbc_execute D (source h) query (bound_params params) of
                Inl msg \<Rightarrow> (Inl (OdbcError msg), s1)
              | Inr cur \<Rightarrow>
                  (let s2 = s1\<lparr>trace := trace s1 @ [Commit h]\<rparr>
                   in case odbc_commit D (source h) of
                        Inl msg \<Rightarrow> (Inl (OdbcError msg), s2)
                      | Inr _ \<Rightarrow> (Inr (rowcount cur), s2))))"

text \<open>\<^verbatim>\<open>get_tables\<close>: the names of the rows of \<^verbatim>\<open>cursor.tables()\<close> whose type is \<^verbatim>\<open>TABLE\<close>.\<close>

definition get_tables ::
  "driver \<Rightarrow> FileMakerConnection \<Rightarrow> server \<Rightarrow> (exn + string list) \<times> server" where
  "get_tables D self s =
     (case connection self of
        None \<Rightarrow> (Inl (RuntimeError ''Not connected to database''), s)
      | Some h \<Rightarrow>
          (let s1 = s\<lparr>trace := trace s @ [Tables h]\<rparr>
           in case odbc_tables D (source h) of
                Inl msg \<Rightarrow> (Inl (OdbcError msg), s1)
              | Inr rows \<Rightarrow> (Inr (map fst (filter (\<lambda>row. snd row = ''TABLE'') rows)), s1)))"

text \<open>\<^verbatim>\<open>get_columns\<close>: one dictionary per column, already as the JSON object it is dumped to.\<close>

definition column_dict :: "column_row \<Rightarrow> json" where
  "column_dict row =
     JObj [(''name'', JStr (column_name row)),
           (''type'', JStr (type_name row)),
           (''size'', (case column_size row of None \<Rightarrow> JNull | Some n \<Rightarrow> JInt n)),
           (''nullable'', JBool (nullable row = 1))]"

definition get_columns ::
  "driver \<Rightarrow> FileMakerConnection \<Rightarrow> string \<Rightarrow> server \<Rightarrow> (exn + json list) \<times> server" where
  "get_columns D self table_name s =
     (case connection self of
        None \<Rightarrow> (Inl (RuntimeError ''Not connected to database''), s)
      | Some h \<Rightarrow>
          (let s1 = s\<lparr>trace := trace s @ [Columns h table_name]\<rparr>
           in case odbc_columns D (source h) table_name of
                Inl msg \<Rightarrow> (Inl (OdbcError msg), s1)
              | Inr rows \<Rightarrow> (Inr (map column_dict rows), s1)))"

section \<open>Resources\<close>

definition FILEMAKER_DATABASES :: "string list" where
  "FILEMAKER_DATABASES =
     [''Appointments'', ''CLOrders'', ''Dispenses'', ''Email'', ''Lookups'', ''Open'',
      ''OpenAdmin'', ''OpenMngr'', ''Patients'', ''ProdPrices'', ''Timecards'',
      ''Transactions'']"

text \<open>\<^verbatim>\<open>TextContent(type=..., text=...)\<close>, the text being the document that is dumped.\<close>

record TextContent =
  content_type :: string
  content_text :: json

definition text_content :: "json \<Rightarrow> TextContent" where
  "text_content doc = \<lparr>content_type = ''text'', content_text = doc\<rparr>"

text \<open>
  \<^verbatim>\<open>ReadResourceResult\<close> is a type of the protocol library. It declares
  \<^verbatim>\<open>contents: list[TextResourceContents | BlobResourceContents]\<close>, and its constructor
  validates what it is given: a \<^verbatim>\<open>TextContent\<close> is neither of the two (it has no
  \<^verbatim>\<open>uri\<close>), so a list that holds one is refused with a \<^verbatim>\<open>ValidationError\<close>.
  \<open>ReadResourceResult_init\<close> is the constructor applied to a list of \<^verbatim>\<open>TextContent\<close>,
  which is all the code ever passes.
\<close>

datatype resource_contents =
    TextResourceContents string string
  | BlobResourceContents string string

record ReadResourceResult =
  contents :: "resource_contents list"

definition ReadResourceResult_init :: "TextContent list \<Rightarrow> exn + ReadResourceResult" where
  "ReadResourceResult_init items =
     (if items = [] then Inr \<lparr>contents = []\<rparr>
      else Inl (ValidationError ''ReadResourceResult''))"

text \<open>The loop of \<^verbatim>\<open>read_resource\<close> over the tables, appending to \<^verbatim>\<open>schema_info["tables"]\<close>.\<close>

fun table_schemas ::
  "driver \<Rightarrow> FileMakerConnection \<Rightarrow> string list \<Rightarrow> json list \<Rightarrow> server
     \<Rightarrow> (exn + json list) \<times> server" where
  "table_schemas D conn [] acc s = (Inr acc, s)"
| "table_schemas D conn (t # ts) acc s =
     (case get_columns D conn t s of
        (Inl e, s1) \<Rightarrow> (Inl e, s1)
      | (Inr columns, s1) \<Rightarrow>
          table_schemas D conn ts
            (acc @ [JObj [(''name'', JStr t), (''columns'', JArr columns)]]) s1)"

text \<open>The body of the \<^verbatim>\<open>try\<close> of \<^verbatim>\<open>read_resource\<close>, up to the document \<^verbatim>\<open>schema_info\<close>.\<close>

definition read_schema :: "driver \<Rightarrow> server \<Rightarrow> string \<Rightarrow> (exn + json) \<times> server" where
  "read_schema D s db =
     (case get_connection D s db of
        (Inl e, s1) \<Rightarrow> (Inl e, s1)
      | (Inr conn, s1) \<Rightarrow>
          (case get_tables D conn s1 of
             (Inl e, s2) \<Rightarrow> (Inl e, s2)
           | (Inr tables, s2) \<Rightarrow>
               (case table_schemas D conn tables [] s2 of
                  (Inl e, s3) \<Rightarrow> (Inl e, s3)
                | (Inr schemas, s3) \<Rightarrow>
                    (Inr (JObj [(''database'', JStr db), (''tables'', JArr schemas)]), s3))))"

text \<open>
  The whole \<^verbatim>\<open>try\<close> block of \<^verbatim>\<open>read_resource\<close>: the document, then the
  \<^verbatim>\<open>ReadResourceResult\<close> that is built from it and returned.
\<close>

definition read_resource_try ::
  "driver \<Rightarrow> server \<Rightarrow> string \<Rightarrow> (exn + ReadResourceResult) \<times> server" where
  "read_resource_try D s db =
     (case read_schema D s db of
        (Inl e, s1) \<Rightarrow> (Inl e, s1)
      | (Inr schema_info, s1) \<Rightarrow> (ReadResourceResult_init [text_content schema_info], s1))"

text \<open>
  \<^verbatim>\<open>read_resource\<close>: \<open>Inl\<close> is an exception that leaves the function, \<open>Inr\<close> a returned
  result. The scheme check stands before the \<^verbatim>\<open>try\<close>; the \<^verbatim>\<open>except Exception\<close>
  catches whatever the block raises and builds a second \<^verbatim>\<open>ReadResourceResult\<close>, around
  the error's text, and what that constructor raises is caught by nothing.
\<close>

definition read_resource ::
  "driver \<Rightarrow> server \<Rightarrow> string \<Rightarrow> (exn + ReadResourceResult) \<times> server" where
  "read_resource D s uri =
     (if \<not> startswith uri ''filemaker://''
      then (Inl (ValueError (''Invalid URI scheme: '' @ uri)), s)
      else
        (case read_resource_try D s (replace ''filemaker://'' [] uri) of
           (Inr result, s1) \<Rightarrow> (Inr result, s1)
         | (Inl e, s1) \<Rightarrow>
             (ReadResourceResult_init [text_content (JObj [(''error'', JStr (str_exn e))])],
              s1)))"

section \<open>Tools\<close>

text \<open>
  \<^verbatim>\<open>list_tools\<close>: the catalog. Of each tool's input schema the model keeps the names of
  the declared properties and the list \<^verbatim>\<open>required\<close>.
\<close>

record Tool =
  tool_name :: string
  properties :: "string list"
  required :: "string list"

definition list_tools :: "Tool list" where
  "list_tools =
     [\<lparr>tool_name = ''query'', properties = [''database'', ''sql'', ''limit''],
        required = [''database'', ''sql'']\<rparr>,
      \<lparr>tool_name = ''list_tables'', properties = [''database''],
        required = [''database'']\<rparr>,
      \<lparr>tool_name = ''describe_table'', properties = [''database'', ''table''],
        required = [''database'', ''table'']\<rparr>,
      \<lparr>tool_name = ''insert_record'', properties = [''database'', ''table'', ''data''],
        required = [''database'', ''table'', ''data'']\<rparr>,
      \<lparr>tool_name = ''update_record'', properties = [''database'', ''table'', ''data'', ''where''],
        required = [''database'', ''table'', ''data'', ''where'']\<rparr>,
      \<lparr>tool_name = ''list_all_databases'', properties = [], required = []\<rparr>,
      \<lparr>tool_name = ''search_patients'', properties = [''search_term'', ''field'', ''limit''],
        required = [''search_term'']\<rparr>,
      \<lparr>tool_name = ''get_appointments'', properties = [''date'', ''end_date'', ''patient_id''],
        required = [''date'']\<rparr>,
      \<lparr>tool_name = ''get_transactions'',
        properties = [''patient_id'', ''start_date'', ''end_date'', ''limit''],
        required = []\<rparr>]"

text \<open>
  The argument dictionary of a tool call. Its keys are those the schemas declare, each with
  the type its schema gives it (a string, an integer, or for \<^verbatim>\<open>data\<close> an object of
  scalar values in key order); a key that is absent is \<open>None\<close>.
\<close>

record arguments =
  arg_database :: "string option"
  arg_sql :: "string option"
  arg_limit :: "int option"
  arg_table :: "string option"
  arg_data :: "(string \<times> sqlval) list option"
  arg_where :: "string option"
  arg_search_term :: "string option"
  arg_field :: "string option"
  arg_date :: "string option"
  arg_end_date :: "string option"
  arg_patient_id :: "string option"
  arg_start_date :: "string option"

definition no_arguments :: arguments where
  "no_arguments =
     \<lparr>arg_database = None, arg_sql = None, arg_limit = None, arg_table = None,
      arg_data = None, arg_where = None, arg_search_term = None, arg_field = None,
      arg_date = None, arg_end_date = None, arg_patient_id = None, arg_start_date = None\<rparr>"

text \<open>\<^verbatim>\<open>key in arguments\<close>.\<close>

definition has_key :: "arguments \<Rightarrow> string \<Rightarrow> bool" where
  "has_key a key =
     (if key = ''database'' then arg_database a \<noteq> None
      else if key = ''sql'' then arg_sql a \<noteq> None
      else if key = ''limit'' then arg_limit a \<noteq> None
      else if key = ''table'' then arg_table a \<noteq> None
      else if key = ''data'' then arg_data a \<noteq> None
      else if key = ''where'' then arg_where a \<noteq> None
      else if key = ''search_term'' then arg_search_term a \<noteq> None
      else if key = ''field'' then arg_field a \<noteq> None
      else if key = ''date'' then arg_date a \<noteq> None
      else if key = ''end_date'' then arg_end_date a \<noteq> None
      else if key = ''patient_id'' then arg_patient_id a \<noteq> None
      else if key = ''start_date'' then arg_start_date a \<noteq> None
      else False)"

text \<open>\<^verbatim>\<open>arguments[key]\<close>: the value, or \<^verbatim>\<open>KeyError(key)\<close>.\<close>

definition item :: "string \<Rightarrow> 'a option \<Rightarrow> exn + 'a" where
  "item key v = (case v of None \<Rightarrow> Inl (KeyError key) | Some x \<Rightarrow> Inr x)"

text \<open>The truth value of an optional string: \<^verbatim>\<open>None\<close> and the empty string are false.\<close>

definition truthy :: "string option \<Rightarrow> bool" where
  "truthy v = (case v of None \<Rightarrow> False | Some x \<Rightarrow> x \<noteq> [])"

record CallToolResult =
  content :: "TextContent list"
  isError :: bool

definition tool_result :: "json \<Rightarrow> CallToolResult" where
  "tool_result doc = \<lparr>content = [text_content doc], isError = False\<rparr>"

definition json_of_sqlval :: "sqlval \<Rightarrow> json" where
  "json_of_sqlval v = (case v of Null \<Rightarrow> JNull | IntV i \<Rightarrow> JInt i | StrV x \<Rightarrow> JStr x)"

text \<open>The envelope the four reading tools return for a list of rows.\<close>

definition rows_result :: "(string \<times> sqlval) list list \<Rightarrow> CallToolResult" where
  "rows_result results =
     tool_result (JObj
       [(''success'', JBool True),
        (''row_count'', JInt (int (length results))),
        (''data'', JArr (map (\<lambda>row. JObj (map (\<lambda>(k, v). (k, json_of_sqlval v)) row)) results))])"

text \<open>
  What the reading tools do once their statement is built: get the connection, run
  \<^verbatim>\<open>execute_query\<close>, wrap the rows.
\<close>

definition run_read ::
  "driver \<Rightarrow> server \<Rightarrow> string \<Rightarrow> string \<Rightarrow> sqlval list option \<Rightarrow> int
     \<Rightarrow> (exn + CallToolResult) \<times> server" where
  "run_read D s db sql params limit =
     (case get_connection D s db of
        (Inl e, s1) \<Rightarrow> (Inl e, s1)
      | (Inr conn, s1) \<Rightarrow>
          (case execute_query D conn sql params limit s1 of
             (Inl e, s2) \<Rightarrow> (Inl e, s2)
           | (Inr results, s2) \<Rightarrow> (Inr (rows_result results), s2)))"

definition tool_query :: "driver \<Rightarrow> server \<Rightarrow> arguments \<Rightarrow> (exn + CallToolResult) \<times> server" where
  "tool_query D s a =
     (case item ''database'' (arg_database a) of
        Inl e \<Rightarrow> (Inl e, s)
      | Inr db \<Rightarrow>
          (case item ''sql'' (arg_sql a) of
             Inl e \<Rightarrow> (Inl e, s)
           | Inr sql \<Rightarrow>
               run_read D s db sql None (case arg_limit a of None \<Rightarrow> 100 | Some l \<Rightarrow> l)))"

definition tool_list_tables ::
  "driver \<Rightarrow> server \<Rightarrow> arguments \<Rightarrow> (exn + CallToolResult) \<times> server" where
  "tool_list_tables D s a =
     (case item ''database'' (arg_database a) of
        Inl e \<Rightarrow> (Inl e, s)
      | Inr db \<Rightarrow>
          (case get_connection D s db of
             (Inl e, s1) \<Rightarrow> (Inl e, s1)
           | (Inr conn, s1) \<Rightarrow>
               (case get_tables D conn s1 of
                  (Inl e, s2) \<Rightarrow> (Inl e, s2)
                | (Inr tables, s2) \<Rightarrow>
                    (Inr (tool_result (JObj
                       [(''success'', JBool True),
                        (''database'', JStr db),
                        (''tables'', JArr (map JStr tables))])), s2))))"

definition tool_describe_table ::
  "driver \<Rightarrow> server \<Rightarrow> arguments \<Rightarrow> (exn + CallToolResult) \<times> server" where
  "tool_describe_table D s a =
     (case item ''database'' (arg_database a) of
        Inl e \<Rightarrow> (Inl e, s)
      | Inr db \<Rightarrow>
          (case item ''table'' (arg_table a) of
             Inl e \<Rightarrow> (Inl e, s)
           | Inr table \<Rightarrow>
               (case get_connection D s db of
                  (Inl e, s1) \<Rightarrow> (Inl e, s1)
                | (Inr conn, s1) \<Rightarrow>
                    (case get_columns D conn table s1 of
                       (Inl e, s2) \<Rightarrow> (Inl e, s2)
                     | (Inr columns, s2) \<Rightarrow>
                         (Inr (tool_result (JObj
                            [(''success'', JBool True),
                             (''database'', JStr db),
                             (''table'', JStr table),
                             (''columns'', JArr columns)])), s2)))))"

text \<open>What the two writing tools do once their statement is built.\<close>

definition run_update ::
  "driver \<Rightarrow> server \<Rightarrow> string \<Rightarrow> string \<Rightarrow> sqlval list \<Rightarrow> string
     \<Rightarrow> (exn + CallToolResult) \<times> server" where
  "run_update D s db sql vals verb =
     (case get_connection D s db of
        (Inl e, s1) \<Rightarrow> (Inl e, s1)
      | (Inr conn, s1) \<Rightarrow>
          (case execute_update D conn sql (Some vals) s1 of
             (Inl e, s2) \<Rightarrow> (Inl e, s2)
           | (Inr affected, s2) \<Rightarrow>
               (Inr (tool_result (JObj
                  [(''success'', JBool True),
                   (''message'', JStr (verb @ '' '' @ str_int affected @ '' record(s)''))])),
                s2)))"

definition tool_insert_record ::
  "driver \<Rightarrow> server \<Rightarrow> arguments \<Rightarrow> (exn + CallToolResult) \<times> server" where
  "tool_insert_record D s a =
     (case item ''database'' (arg_database a) of
        Inl e \<Rightarrow> (Inl e, s)
      | Inr db \<Rightarrow>
          (case item ''table'' (arg_table a) of
             Inl e \<Rightarrow> (Inl e, s)
           | Inr table \<Rightarrow>
               (case item ''data'' (arg_data a) of
                  Inl e \<Rightarrow> (Inl e, s)
                | Inr data \<Rightarrow>
                    (let columns = join '', '' (map fst data);
                         placeholders = join '', '' (map (\<lambda>_. ''?'') data);
                         sql = ''INSERT INTO '' @ table @ '' ('' @ columns @ '') VALUES (''
                                 @ placeholders @ '')''
                     in run_update D s db sql (map snd data) ''Inserted''))))"

definition tool_update_record ::
  "driver \<Rightarrow> server \<Rightarrow> arguments \<Rightarrow> (exn + CallToolResult) \<times> server" where
  "tool_update_record D s a =
     (case item ''database'' (arg_database a) of
        Inl e \<Rightarrow> (Inl e, s)
      | Inr db \<Rightarrow>
          (case item ''table'' (arg_table a) of
             Inl e \<Rightarrow> (Inl e, s)
           | Inr table \<Rightarrow>
               (case item ''data'' (arg_data a) of
                  Inl e \<Rightarrow> (Inl e, s)
                | Inr data \<Rightarrow>
                    (case item ''where'' (arg_where a) of
                       Inl e \<Rightarrow> (Inl e, s)
                     | Inr cond \<Rightarrow>
                         (let set_clause = join '', '' (map (\<lambda>k. k @ '' = ?'') (map fst data));
                              sql = ''UPDATE '' @ table @ '' SET '' @ set_clause @ '' WHERE ''
                                      @ cond
                          in run_update D s db sql (map snd data) ''Updated'')))))"

text \<open>
  The loop of \<^verbatim>\<open>list_all_databases\<close>: every database in its own \<^verbatim>\<open>try\<close>, whose
  \<^verbatim>\<open>except Exception\<close> stores the error's text as the database's entry.
\<close>

fun list_all_loop ::
  "driver \<Rightarrow> string list \<Rightarrow> (string \<times> json) list \<Rightarrow> server \<Rightarrow> (string \<times> json) list \<times> server" where
  "list_all_loop D [] all_db_info s = (all_db_info, s)"
| "list_all_loop D (db # dbs) all_db_info s =
     (case get_connection D s db of
        (Inl e, s1) \<Rightarrow>
          list_all_loop D dbs (dict_set db (JObj [(''error'', JStr (str_exn e))]) all_db_info) s1
      | (Inr conn, s1) \<Rightarrow>
          (case get_tables D conn s1 of
             (Inl e, s2) \<Rightarrow>
               list_all_loop D dbs
                 (dict_set db (JObj [(''error'', JStr (str_exn e))]) all_db_info) s2
           | (Inr tables, s2) \<Rightarrow>
               list_all_loop D dbs
                 (dict_set db
                    (JObj [(''tables'', JArr (map JStr tables)),
                           (''count'', JInt (int (length tables)))])
                    all_db_info) s2))"

definition tool_list_all_databases ::
  "driver \<Rightarrow> server \<Rightarrow> arguments \<Rightarrow> (exn + CallToolResult) \<times> server" where
  "tool_list_all_databases D s a =
     (case list_all_loop D FILEMAKER_DATABASES [] s of
        (all_db_info, s1) \<Rightarrow>
          (Inr (tool_result (JObj
             [(''success'', JBool True), (''databases'', JObj all_db_info)])), s1))"

text \<open>The statement and the parameter of \<^verbatim>\<open>search_patients\<close>.\<close>

definition search_patients_sql :: "string \<Rightarrow> string" where
  \<open>search_patients_sql field =
     ''SELECT "Last Name", "First Name", "Middle Initial",'' @ [CHR 0x0A]
     @ replicate 25 (CHR '' '') @ ''"Street Address", "City", "State", "Zip",'' @ [CHR 0x0A]
     @ replicate 25 (CHR '' '') @ ''"Home Phone", "Work Phone", "birth date"'' @ [CHR 0x0A]
     @ replicate 25 (CHR '' '') @ ''FROM Patients WHERE '' @ field @ '' LIKE ?''\<close>

definition search_patients_params :: "string \<Rightarrow> sqlval list" where
  "search_patients_params search_term = [StrV (''%'' @ search_term @ ''%'')]"

definition tool_search_patients ::
  "driver \<Rightarrow> server \<Rightarrow> arguments \<Rightarrow> (exn + CallToolResult) \<times> server" where
  \<open>tool_search_patients D s a =
     (case item ''search_term'' (arg_search_term a) of
        Inl e \<Rightarrow> (Inl e, s)
      | Inr search_term \<Rightarrow>
          (let field = (case arg_field a of None \<Rightarrow> ''"Last Name"'' | Some f \<Rightarrow> f);
               limit = (case arg_limit a of None \<Rightarrow> 50 | Some l \<Rightarrow> l)
           in run_read D s ''Patients'' (search_patients_sql field)
                (Some (search_patients_params search_term)) limit))\<close>

text \<open>The statement and the parameters of \<^verbatim>\<open>get_appointments\<close>.\<close>

definition appointments_sql :: "string option \<Rightarrow> string option \<Rightarrow> string" where
  \<open>appointments_sql end_date patient_id =
     (if truthy end_date then ''SELECT * FROM Appointments WHERE dateappt BETWEEN ? AND ?''
      else ''SELECT * FROM Appointments WHERE dateappt = ?'')
     @ (if truthy patient_id then '' AND "patient id#" = ?'' else [])
     @ '' ORDER BY timeappt''\<close>

definition appointments_params :: "string \<Rightarrow> string option \<Rightarrow> string option \<Rightarrow> sqlval list" where
  "appointments_params date end_date patient_id =
     (if truthy end_date then [StrV date, StrV (the end_date)] else [StrV date])
     @ (if truthy patient_id then [StrV (the patient_id)] else [])"

definition tool_get_appointments ::
  "driver \<Rightarrow> server \<Rightarrow> arguments \<Rightarrow> (exn + CallToolResult) \<times> server" where
  "tool_get_appointments D s a =
     (case item ''date'' (arg_date a) of
        Inl e \<Rightarrow> (Inl e, s)
      | Inr date \<Rightarrow>
          run_read D s ''Appointments'' (appointments_sql (arg_end_date a) (arg_patient_id a))
            (Some (appointments_params date (arg_end_date a) (arg_patient_id a)))
            (case arg_limit a of None \<Rightarrow> 100 | Some l \<Rightarrow> l))"

text \<open>
  \<^verbatim>\<open>get_transactions\<close>: the lists \<^verbatim>\<open>conditions\<close> and \<^verbatim>\<open>params\<close> grow together, one
  entry for each filter that is given, in the order of the three \<^verbatim>\<open>if\<close>s.
\<close>

definition transactions_filters ::
  "string option \<Rightarrow> string option \<Rightarrow> string option \<Rightarrow> (string \<times> sqlval) list" where
  \<open>transactions_filters patient_id start_date end_date =
     (if truthy patient_id then [(''"patient id#" = ?'', StrV (the patient_id))] else [])
     @ (if truthy start_date then [(''"trans date" >= ?'', StrV (the start_date))] else [])
     @ (if truthy end_date then [(''"trans date" <= ?'', StrV (the end_date))] else [])\<close>

definition transactions_sql :: "string list \<Rightarrow> string" where
  "transactions_sql conditions =
     ''SELECT * FROM Transactions''
     @ (if conditions \<noteq> [] then '' WHERE '' @ join '' AND '' conditions else [])"

definition tool_get_transactions ::
  "driver \<Rightarrow> server \<Rightarrow> arguments \<Rightarrow> (exn + CallToolResult) \<times> server" where
  "tool_get_transactions D s a =
     (let filters = transactions_filters (arg_patient_id a) (arg_start_date a) (arg_end_date a);
          conditions = map fst filters;
          params = map snd filters
      in run_read D s ''Transactions'' (transactions_sql conditions)
           (if params \<noteq> [] then Some params else None)
           (case arg_limit a of None \<Rightarrow> 100 | Some l \<Rightarrow> l))"

text \<open>
  \<^verbatim>\<open>call_tool\<close>: the chain of \<^verbatim>\<open>if\<close>/\<^verbatim>\<open>elif\<close> on the name inside the \<^verbatim>\<open>try\<close>
  (\<open>dispatch\<close>), and the \<^verbatim>\<open>except Exception\<close> around it.
\<close>

definition dispatch ::
  "driver \<Rightarrow> server \<Rightarrow> string \<Rightarrow> arguments \<Rightarrow> (exn + CallToolResult) \<times> server" where
  "dispatch D s nm a =
     (if nm = ''query'' then tool_query D s a
      else if nm = ''list_tables'' then tool_list_tables D s a
      else if nm = ''describe_table'' then tool_describe_table D s a
      else if nm = ''insert_record'' then tool_insert_record D s a
      else if nm = ''update_record'' then tool_update_record D s a
      else if nm = ''list_all_databases'' then tool_list_all_databases D s a
      else if nm = ''search_patients'' then tool_search_patients D s a
      else if nm = ''get_appointments'' then tool_get_appointments D s a
      else if nm = ''get_transactions'' then tool_get_transactions D s a
      else
        (Inr \<lparr>content = [text_content (JObj [(''error'', JStr (''Unknown tool: '' @ nm))])],
              isError = True\<rparr>, s))"

definition call_tool :: "driver \<Rightarrow> server \<Rightarrow> string \<Rightarrow> arguments \<Rightarrow> CallToolResult \<times> server" where
  "call_tool D s nm a =
     (case dispatch D s nm a of
        (Inr result, s1) \<Rightarrow> (result, s1)
      | (Inl e, s1) \<Rightarrow>
          (\<lparr>content = [text_content (JObj
               [(''success'', JBool False), (''error'', JStr (str_exn e))])],
            isError = True\<rparr>, s1))"

section \<open>One database of the listing\<close>

text \<open>
  The body of the \<^verbatim>\<open>try\<close> in the loop of \<^verbatim>\<open>list_all_databases\<close>, for one database: its
  connection, then its tables. \<open>db_entry\<close> is the entry that the loop stores for either
  outcome.
\<close>

definition list_one :: "driver \<Rightarrow> server \<Rightarrow> string \<Rightarrow> (exn + string list) \<times> server" where
  "list_one D s db =
     (case get_connection D s db of
        (Inl e, s1) \<Rightarrow> (Inl e, s1)
      | (Inr conn, s1) \<Rightarrow> get_tables D conn s1)"

definition db_entry :: "exn + string list \<Rightarrow> json" where
  "db_entry r =
     (case r of
        Inl e \<Rightarrow> JObj [(''error'', JStr (str_exn e))]
      | Inr tables \<Rightarrow>
          JObj [(''tables'', JArr (map JStr tables)), (''count'', JInt (int (length tables)))])"

section \<open>The LIKE predicate\<close>

text \<open>
  The \<^verbatim>\<open>LIKE\<close> predicate is evaluated by the database engine, not by the gateway. Its
  wildcards are those of SQL: \<^verbatim>\<open>%\<close> stands for any run of characters (the handler of
  \<^verbatim>\<open>search_patients\<close> relies on it when it wraps the search term in \<^verbatim>\<open>%\<close>), and
  \<^verbatim>\<open>_\<close> for any single character. \<open>sql_like pattern subject\<close> says that the subject
  matches the pattern.
\<close>

fun sql_like :: "string \<Rightarrow> string \<Rightarrow> bool" where
  "sql_like [] subject = (subject = [])"
| "sql_like (p # ps) subject =
     (if p = CHR ''%'' then
        sql_like ps subject \<or> (case subject of [] \<Rightarrow> False | c # cs \<Rightarrow> sql_like (p # ps) cs)
      else if p = CHR ''_'' then (case subject of [] \<Rightarrow> False | c # cs \<Rightarrow> sql_like ps cs)
      else (case subject of [] \<Rightarrow> False | c # cs \<Rightarrow> c = p \<and> sql_like ps cs))"

section \<open>The filters of a transaction lookup, as the specification words them\<close>

text \<open>
  The predicates of \<^verbatim>\<open>get_transactions\<close> in the order the specification gives them:
  the equality on the patient id, the lower bound on the date, the upper bound on the date,
  each one present when its argument is given (and not empty), with the value it binds.
  It is compared below with the lists that the code builds.
\<close>

definition present_filters ::
  "string option \<Rightarrow> string option \<Rightarrow> string option \<Rightarrow> (string \<times> string) list" where
  \<open>present_filters patient_id start_date end_date =
     [(condition, x). (condition, Some x) \<leftarrow>
        [(''"patient id#" = ?'', patient_id),
         (''"trans date" >= ?'', start_date),
         (''"trans date" <= ?'', end_date)], x \<noteq> []]\<close>

text \<open>
  The statement of a lookup with the filters \<open>fs\<close>: no \<^verbatim>\<open>WHERE\<close> clause without a filter,
  else the predicates joined with \<^verbatim>\<open>AND\<close>; and the values bound to it, in the same order.
\<close>

definition filtered_statement :: "(string \<times> string) list \<Rightarrow> string" where
  "filtered_statement fs =
     ''SELECT * FROM Transactions''
     @ (if fs = [] then [] else '' WHERE '' @ join '' AND '' (map fst fs))"

definition filtered_values :: "(string \<times> string) list \<Rightarrow> sqlval list option" where
  "filtered_values fs = (if fs = [] then None else Some (map (\<lambda>(condition, x). StrV x) fs))"

section \<open>A concrete driver\<close>

text \<open>
  A small data source on which the theorems below are instantiated: every database but
  \<^verbatim>\<open>Email\<close> can be reached, every statement yields the same three rows under the columns
  \<^verbatim>\<open>id\<close>, \<^verbatim>\<open>name\<close>, \<^verbatim>\<open>id\<close>, and every database has one table and one view.
\<close>

definition demo_config :: FileMakerConfig where
  "demo_config = \<lparr>dsn = ''FileMaker'', username = [], password = [], database = []\<rparr>"

definition demo_cursor :: cursor where
  "demo_cursor =
     \<lparr>description = Some [''id'', ''name'', ''id''],
      pending = Inr [[IntV 1, StrV ''Ann'', IntV 7],
                     [IntV 2, StrV ''Bob'', IntV 8],
                     [IntV 3, StrV ''Cy'', IntV 9]],
      rowcount = - 1\<rparr>"

definition demo_driver :: driver where
  "demo_driver =
     \<lparr>odbc_connect =
        (\<lambda>cs. if cs = ''DSN=FileMaker;ServerDataSource=Email'' then Inl ''unreachable''
              else Inr ()),
      odbc_execute = (\<lambda>cs sql params. Inr demo_cursor),
      odbc_commit = (\<lambda>cs. Inr ()),
      odbc_tables = (\<lambda>cs. Inr [(''Main'', ''TABLE''), (''Main_view'', ''VIEW'')]),
      odbc_columns =
        (\<lambda>cs t. Inr [\<lparr>column_name = ''id'', type_name = ''DECIMAL'',
                         column_size = Some 15, nullable = 1\<rparr>]),
      odbc_fetch_negative = (\<lambda>n rows. rows)\<rparr>"

text \<open>The same data source when no database can be reached.\<close>

definition offline_driver :: driver where
  "offline_driver = demo_driver\<lparr>odbc_connect := (\<lambda>cs. Inl ''unreachable'')\<rparr>"

definition demo_connection :: FileMakerConnection where
  "demo_connection =
     \<lparr>config = demo_config,
      connection = Some \<lparr>serial = 0, source = ''DSN=FileMaker;ServerDataSource=Patients''\<rparr>\<rparr>"

text \<open>The server once the connection to \<^verbatim>\<open>Patients\<close> has been opened on the concrete driver.\<close>

definition demo_server :: server where
  "demo_server =
     \<lparr>fm_config = demo_config,
      connections = [''Patients'' \<mapsto> demo_connection],
      trace = [Connect ''DSN=FileMaker;ServerDataSource=Patients''],
      next_serial = Suc 0\<rparr>"

text \<open>The connection to \<^verbatim>\<open>Transactions\<close> that the concrete driver opens first.\<close>

definition demo_transactions :: FileMakerConnection where
  "demo_transactions =
     \<lparr>config = demo_config,
      connection = Some \<lparr>serial = 0, source = ''DSN=FileMaker;ServerDataSource=Transactions''\<rparr>\<rparr>"

section \<open>Dictionaries\<close>

lemma map_of_dict_set: "map_of (dict_set k v d) = (map_of d)(k \<mapsto> v)"
  by (induction d) (auto simp: fun_eq_iff)

lemma map_of_dict_from: "map_of (dict_from d ps) = map_of d ++ map_of (rev ps)"
proof (induction ps arbitrary: d)
  case Nil
  then show ?case by simp
next
  case (Cons p ps)
  obtain k v where p: "p = (k, v)" by (cases p)
  show ?case
    unfolding p by (simp add: Cons.IH map_of_dict_set fun_eq_iff map_add_def split: option.splits)
qed

lemma map_of_dict: "map_of (dict ps) = map_of (rev ps)"
  by (simp add: dict_def map_of_dict_from)

lemma keys_dict_set: "fst ` set (dict_set k v d) = insert k (fst ` set d)"
  using arg_cong[OF map_of_dict_set[of k v d], of dom]
  by (simp add: dom_map_of_conv_image_fst)

lemma distinct_dict_set: "distinct (map fst d) \<Longrightarrow> distinct (map fst (dict_set k v d))"
  by (induction d) (auto simp: keys_dict_set)

lemma distinct_dict_from: "distinct (map fst d) \<Longrightarrow> distinct (map fst (dict_from d ps))"
  by (induction ps arbitrary: d) (auto simp: distinct_dict_set)

lemma distinct_dict: "distinct (map fst (dict ps))"
  by (simp add: dict_def distinct_dict_from)

text \<open>In a reversed association list the last pair of a key is found first.\<close>

lemma map_of_rev_last:
  "i < length xs \<Longrightarrow> \<forall>j. i < j \<and> j < length xs \<longrightarrow> fst (xs ! j) \<noteq> fst (xs ! i)
     \<Longrightarrow> map_of (rev xs) (fst (xs ! i)) = Some (snd (xs ! i))"
proof (induction xs rule: rev_induct)
  case Nil
  then show ?case by simp
next
  case (snoc x ys)
  show ?case
  proof (cases "i = length ys")
    case True
    then show ?thesis by simp
  next
    case False
    with snoc.prems(1) have i: "i < length ys" by simp
    from snoc.prems(2) i have "fst x \<noteq> fst (ys ! i)"
      by (metis length_append_singleton lessI nth_append nth_append_length)
    moreover have "\<forall>j. i < j \<and> j < length ys \<longrightarrow> fst (ys ! j) \<noteq> fst (ys ! i)"
      using snoc.prems(2) i by (auto simp: nth_append split: if_splits)
    ultimately show ?thesis using snoc.IH[OF i] i by (simp add: nth_append)
  qed
qed

lemma dict_zip_last:
  assumes "i < length cols" "i < length row"
    and "\<forall>j. i < j \<and> j < length cols \<and> j < length row \<longrightarrow> cols ! j \<noteq> cols ! i"
  shows "map_of (dict (zip cols row)) (cols ! i) = Some (row ! i)"
  using map_of_rev_last[of i "zip cols row"] assms by (simp add: map_of_dict)

section \<open>The query executor\<close>

text \<open>
  Claim C1. For a limit that is not negative, \<^verbatim>\<open>execute_query\<close> returns at most
  \<open>limit\<close> rows, however many the statement produces. The only statement text it passes to
  the driver is the caller's own \<open>query\<close>, unchanged, and the only fetch it asks for is
  \<^verbatim>\<open>fetchmany(limit)\<close>: when rows are returned, the driver has seen exactly one
  \<^verbatim>\<open>execute\<close> of \<open>query\<close> followed by one \<^verbatim>\<open>fetchmany(limit)\<close>. The rows returned are
  the first \<open>limit\<close> rows of the result, all of them when there are fewer.
\<close>

theorem execute_query_bounded:
  assumes "0 \<le> limit"
    and "execute_query D self query params limit s = (outcome, s')"
  shows "(\<forall>results. outcome = Inr results \<longrightarrow> length results \<le> nat limit)
       \<and> (\<exists>new. trace s' = trace s @ new
             \<and> (\<forall>h q p. Execute h q p \<in> set new \<longrightarrow> q = query)
             \<and> (\<forall>h n. Fetchmany h n \<in> set new \<longrightarrow> n = limit)
             \<and> (\<forall>results. outcome = Inr results \<longrightarrow>
                  (\<exists>h. new = [Execute h query (bound_params params), Fetchmany h limit])))
       \<and> (\<forall>h cur rows. connection self = Some h
             \<and> odbc_execute D (source h) query (bound_params params) = Inr cur
             \<and> pending cur = Inr rows \<longrightarrow>
             outcome = Inr (map (\<lambda>row. dict (zip (column_names cur) row)) (take (nat limit) rows)))"
  using assms
  by (auto simp: execute_query_def Let_def fetchmany_def split: option.splits sum.splits)

theorem execute_query_bounded_witness:
  "(0::int) \<le> 2
   \<and> execute_query demo_driver demo_connection ''SELECT * FROM Patients'' None 2
        (create_server demo_config)
      = (Inr [[(''id'', IntV 7), (''name'', StrV ''Ann'')], [(''id'', IntV 8), (''name'', StrV ''Bob'')]],
         (create_server demo_config)
           \<lparr>trace := [Execute \<lparr>serial = 0, source = ''DSN=FileMaker;ServerDataSource=Patients''\<rparr>
                         ''SELECT * FROM Patients'' None,
                       Fetchmany \<lparr>serial = 0, source = ''DSN=FileMaker;ServerDataSource=Patients''\<rparr> 2]\<rparr>)
   \<and> length [[(''id'', IntV 7), (''name'', StrV ''Ann'')], [(''id'', IntV 8), (''name'', StrV ''Bob'')]]
        \<le> nat 2"
proof -
  have run: "execute_query demo_driver demo_connection ''SELECT * FROM Patients'' None 2
        (create_server demo_config)
      = (Inr [[(''id'', IntV 7), (''name'', StrV ''Ann'')], [(''id'', IntV 8), (''name'', StrV ''Bob'')]],
         (create_server demo_config)
           \<lparr>trace := [Execute \<lparr>serial = 0, source = ''DSN=FileMaker;ServerDataSource=Patients''\<rparr>
                         ''SELECT * FROM Patients'' None,
                       Fetchmany \<lparr>serial = 0, source = ''DSN=FileMaker;ServerDataSource=Patients''\<rparr> 2]\<rparr>)"
    by (simp add: execute_query_def demo_driver_def demo_connection_def demo_cursor_def
        bound_params_def column_names_def fetchmany_def dict_def create_server_def Let_def
        numeral_2_eq_2)
  have "(0::int) \<le> 2" by simp
  from execute_query_bounded[OF this run] run show ?thesis by simp
qed

text \<open>
  Claim C8. Every row that \<^verbatim>\<open>execute_query\<close> returns is
  \<^verbatim>\<open>dict(zip(columns, row))\<close> of the driver's column names and the values of the fetched
  row at the same position. Its keys are distinct, and a column name maps to the value at
  its last position that has a value: where two columns share a name, the later one
  overwrites the earlier.
\<close>

theorem execute_query_row_mapping:
  assumes "execute_query D self query params limit s = (Inr results, s')"
  shows "\<exists>h cur rows.
           connection self = Some h
         \<and> odbc_execute D (source h) query (bound_params params) = Inr cur
         \<and> pending cur = Inr rows
         \<and> length results = length (fetchmany D limit rows)
         \<and> (\<forall>n. n < length results \<longrightarrow>
               results ! n = dict (zip (column_names cur) (fetchmany D limit rows ! n))
             \<and> distinct (map fst (results ! n))
             \<and> (\<forall>i. i < length (column_names cur) \<and> i < length (fetchmany D limit rows ! n)
                    \<and> (\<forall>j. i < j \<and> j < length (column_names cur)
                            \<and> j < length (fetchmany D limit rows ! n)
                          \<longrightarrow> column_names cur ! j \<noteq> column_names cur ! i)
                  \<longrightarrow> map_of (results ! n) (column_names cur ! i)
                        = Some (fetchmany D limit rows ! n ! i)))"
proof -
  from assms obtain h cur rows where
    h: "connection self = Some h"
    and cur: "odbc_execute D (source h) query (bound_params params) = Inr cur"
    and rows: "pending cur = Inr rows"
    and res: "results = map (\<lambda>row. dict (zip (column_names cur) row)) (fetchmany D limit rows)"
    by (auto simp: execute_query_def Let_def split: option.splits sum.splits)
  show ?thesis
    using h cur rows
    by (intro exI[of _ h] exI[of _ cur] exI[of _ rows])
       (simp add: res distinct_dict dict_zip_last)
qed

theorem execute_query_row_mapping_witness:
  "execute_query demo_driver demo_connection ''SELECT * FROM Patients'' None 1
        (create_server demo_config)
      = (Inr [[(''id'', IntV 7), (''name'', StrV ''Ann'')]],
         (create_server demo_config)
           \<lparr>trace := [Execute \<lparr>serial = 0, source = ''DSN=FileMaker;ServerDataSource=Patients''\<rparr>
                         ''SELECT * FROM Patients'' None,
                       Fetchmany \<lparr>serial = 0, source = ''DSN=FileMaker;ServerDataSource=Patients''\<rparr> 1]\<rparr>)
   \<and> column_names demo_cursor = [''id'', ''name'', ''id'']
   \<and> fetchmany demo_driver 1 [[IntV 1, StrV ''Ann'', IntV 7]] = [[IntV 1, StrV ''Ann'', IntV 7]]
   \<and> map_of ([[(''id'', IntV 7), (''name'', StrV ''Ann'')]] ! 0) ''id'' = Some (IntV 7)"
proof -
  have run: "execute_query demo_driver demo_connection ''SELECT * FROM Patients'' None 1
        (create_server demo_config)
      = (Inr [[(''id'', IntV 7), (''name'', StrV ''Ann'')]],
         (create_server demo_config)
           \<lparr>trace := [Execute \<lparr>serial = 0, source = ''DSN=FileMaker;ServerDataSource=Patients''\<rparr>
                         ''SELECT * FROM Patients'' None,
                       Fetchmany \<lparr>serial = 0, source = ''DSN=FileMaker;ServerDataSource=Patients''\<rparr> 1]\<rparr>)"
    by (simp add: execute_query_def demo_driver_def demo_connection_def demo_cursor_def
        bound_params_def column_names_def fetchmany_def dict_def create_server_def Let_def)
  from execute_query_row_mapping[OF run] run show ?thesis
    by (simp add: column_names_def demo_cursor_def fetchmany_def)
qed

section \<open>The connection registry\<close>

lemma demo_get_connection:
  "get_connection demo_driver (create_server demo_config) ''Patients''
     = (Inr demo_connection, demo_server)"
  by (simp add: get_connection_def connect_def connection_string_def create_server_def
      demo_driver_def demo_config_def demo_connection_def demo_server_def Let_def)

lemma demo_email_fails:
  "get_connection demo_driver (create_server demo_config) ''Email''
     = (Inl (OdbcError ''unreachable''),
        (create_server demo_config)\<lparr>trace := [Connect ''DSN=FileMaker;ServerDataSource=Email'']\<rparr>)"
  by (simp add: get_connection_def connect_def connection_string_def create_server_def
      demo_driver_def demo_config_def Let_def)

text \<open>
  Claim C3. Once \<^verbatim>\<open>get_connection\<close> has returned a connection for a name, a second call
  with that name returns the same connection (the same handle) and leaves the server as it
  is: the trace has no new driver call, whatever the driver would answer. The registry is a
  mapping, so a name has at most one connection in it; the first call changes no other
  name's entry.
\<close>

theorem get_connection_idempotent:
  assumes "get_connection D s db = (Inr conn, s1)"
  shows "get_connection D' s1 db = (Inr conn, s1)
       \<and> connections s1 db = Some conn
       \<and> (\<forall>other. other \<noteq> db \<longrightarrow> connections s1 other = connections s other)"
  using assms
  by (auto simp: get_connection_def connect_def Let_def split: option.splits sum.splits)

theorem get_connection_idempotent_witness:
  "get_connection demo_driver (create_server demo_config) ''Patients''
     = (Inr demo_connection, demo_server)
   \<and> get_connection demo_driver demo_server ''Patients'' = (Inr demo_connection, demo_server)
   \<and> connections demo_server ''Patients'' = Some demo_connection"
  using get_connection_idempotent[OF demo_get_connection, of demo_driver] demo_get_connection
  by simp

text \<open>
  Claim C9. When \<^verbatim>\<open>get_connection\<close> fails, the name was not in the registry, the error
  is the driver's refusal to connect, and the registry is left as it was. A later call for
  the same name asks the driver to connect again, and when the driver then accepts, the
  call returns a connection with a new handle.
\<close>

theorem get_connection_failure:
  assumes "get_connection D s db = (Inl e, s1)"
  shows "connections s db = None
       \<and> connections s1 = connections s
       \<and> odbc_connect D (connection_string (fm_config s) db) = Inl (str_exn e)
       \<and> trace s1 = trace s @ [Connect (connection_string (fm_config s) db)]
       \<and> trace (snd (get_connection D' s1 db))
           = trace s1 @ [Connect (connection_string (fm_config s) db)]
       \<and> (odbc_connect D' (connection_string (fm_config s) db) = Inr () \<longrightarrow>
            fst (get_connection D' s1 db)
              = Inr \<lparr>config = fm_config s,
                     connection = Some \<lparr>serial = next_serial s1,
                                        source = connection_string (fm_config s) db\<rparr>\<rparr>)"
  using assms
  by (auto simp: get_connection_def connect_def Let_def split: option.splits sum.splits)

theorem get_connection_failure_witness:
  "get_connection demo_driver (create_server demo_config) ''Email''
     = (Inl (OdbcError ''unreachable''),
        (create_server demo_config)\<lparr>trace := [Connect ''DSN=FileMaker;ServerDataSource=Email'']\<rparr>)
   \<and> connections ((create_server demo_config)
        \<lparr>trace := [Connect ''DSN=FileMaker;ServerDataSource=Email'']\<rparr>) = Map.empty
   \<and> trace (snd (get_connection demo_driver ((create_server demo_config)
        \<lparr>trace := [Connect ''DSN=FileMaker;ServerDataSource=Email'']\<rparr>) ''Email''))
      = [Connect ''DSN=FileMaker;ServerDataSource=Email'',
         Connect ''DSN=FileMaker;ServerDataSource=Email'']"
proof -
  have run: "get_connection demo_driver (create_server demo_config) ''Email''
     = (Inl (OdbcError ''unreachable''),
        (create_server demo_config)\<lparr>trace := [Connect ''DSN=FileMaker;ServerDataSource=Email'']\<rparr>)"
    by (simp add: get_connection_def connect_def connection_string_def create_server_def
        demo_driver_def demo_config_def Let_def)
  from get_connection_failure[OF run, of demo_driver] run show ?thesis
    by (simp add: create_server_def connection_string_def demo_config_def)
qed

section \<open>Reading a resource\<close>

lemma read_resource_try_state:
  "snd (read_resource_try D s db) = snd (read_schema D s db)"
  by (simp add: read_resource_try_def split: prod.splits sum.splits)

lemma read_resource_try_raises:
  "\<exists>e. fst (read_resource_try D s db) = Inl e"
  by (simp add: read_resource_try_def ReadResourceResult_init_def split: prod.splits sum.splits)

text \<open>
  Whatever the driver answers, \<^verbatim>\<open>read_resource\<close> returns no result: without the scheme
  it raises the \<^verbatim>\<open>ValueError\<close>, and with the scheme the \<^verbatim>\<open>ValidationError\<close> of the
  result it tries to build in the \<^verbatim>\<open>except\<close> block.
\<close>

lemma read_resource_raises:
  "read_resource D s uri =
     (if startswith uri ''filemaker://''
      then (Inl (ValidationError ''ReadResourceResult''),
            snd (read_schema D s (replace ''filemaker://'' [] uri)))
      else (Inl (ValueError (''Invalid URI scheme: '' @ uri)), s))"
proof (cases "startswith uri ''filemaker://''")
  case False
  then show ?thesis by (simp add: read_resource_def)
next
  case True
  obtain r s1 where t: "read_resource_try D s (replace ''filemaker://'' [] uri) = (r, s1)"
    by (cases "read_resource_try D s (replace ''filemaker://'' [] uri)")
  from read_resource_try_raises[of D s "replace ''filemaker://'' [] uri"] t
  obtain e where e: "r = Inl e" by auto
  from read_resource_try_state[of D s "replace ''filemaker://'' [] uri"] t
  have s1: "s1 = snd (read_schema D s (replace ''filemaker://'' [] uri))" by simp
  show ?thesis
    using True by (simp add: read_resource_def t e s1 ReadResourceResult_init_def)
qed

lemma replace_demo:
  "replace ''filemaker://'' [] ''filemaker://Email'' = ''Email''"
  "replace ''filemaker://'' [] ''filemaker://Patients'' = ''Patients''"
  by (simp_all add: replace.simps startswith_def)

text \<open>
  Claim C10, at the inputs where the code fails it. The URI without the scheme raises the
  \<^verbatim>\<open>ValueError\<close>, as the claim says. The two URIs with the scheme do not come back as a
  result: for \<^verbatim>\<open>Email\<close>, whose connection fails, the \<^verbatim>\<open>except\<close> block itself raises,
  where the claim has a result with the single field \<^verbatim>\<open>error\<close>; and for \<^verbatim>\<open>Patients\<close>,
  where nothing fails before, building the result of the \<^verbatim>\<open>try\<close> block raises and the
  \<^verbatim>\<open>except\<close> block raises again.
\<close>

theorem read_resource_escapes:
  "read_resource demo_driver (create_server demo_config) ''http://Email''
     = (Inl (ValueError ''Invalid URI scheme: http://Email''), create_server demo_config)
   \<and> fst (get_connection demo_driver (create_server demo_config) ''Email'')
       = Inl (OdbcError ''unreachable'')
   \<and> fst (read_resource demo_driver (create_server demo_config) ''filemaker://Email'')
       = Inl (ValidationError ''ReadResourceResult'')
   \<and> fst (read_schema demo_driver (create_server demo_config) ''Patients'')
       = Inr (JObj [(''database'', JStr ''Patients''),
                    (''tables'', JArr [JObj [(''name'', JStr ''Main''),
                       (''columns'', JArr [JObj [(''name'', JStr ''id''), (''type'', JStr ''DECIMAL''),
                                                (''size'', JInt 15), (''nullable'', JBool True)]])]])])
   \<and> fst (read_resource demo_driver (create_server demo_config) ''filemaker://Patients'')
       = Inl (ValidationError ''ReadResourceResult'')"
proof -
  have schema: "fst (read_schema demo_driver (create_server demo_config) ''Patients'')
       = Inr (JObj [(''database'', JStr ''Patients''),
                    (''tables'', JArr [JObj [(''name'', JStr ''Main''),
                       (''columns'', JArr [JObj [(''name'', JStr ''id''), (''type'', JStr ''DECIMAL''),
                                                (''size'', JInt 15), (''nullable'', JBool True)]])]])])"
    by (simp add: read_schema_def get_connection_def connect_def connection_string_def
        get_tables_def get_columns_def column_dict_def create_server_def demo_driver_def
        demo_config_def Let_def)
  have scheme: "\<not> startswith ''http://Email'' ''filemaker://''"
    "startswith ''filemaker://Email'' ''filemaker://''"
    "startswith ''filemaker://Patients'' ''filemaker://''"
    by (simp_all add: startswith_def)
  show ?thesis
    using schema scheme demo_email_fails by (simp add: read_resource_raises)
qed

section \<open>The router\<close>

lemma call_tool_raises:
  "dispatch D s nm a = (Inl e, s1) \<Longrightarrow>
     call_tool D s nm a =
       (\<lparr>content = [text_content (JObj
            [(''success'', JBool False), (''error'', JStr (str_exn e))])],
         isError = True\<rparr>, s1)"
  by (simp add: call_tool_def)

lemma query_missing:
  "\<not> has_key a ''database'' \<or> \<not> has_key a ''sql'' \<Longrightarrow>
     \<exists>k \<in> {''database'', ''sql''}. \<not> has_key a k
        \<and> dispatch D s ''query'' a = (Inl (KeyError k), s)"
  by (cases "arg_database a"; cases "arg_sql a")
     (auto simp: dispatch_def tool_query_def has_key_def item_def)

lemma list_tables_missing:
  "\<not> has_key a ''database'' \<Longrightarrow>
     dispatch D s ''list_tables'' a = (Inl (KeyError ''database''), s)"
  by (cases "arg_database a")
     (auto simp: dispatch_def tool_list_tables_def has_key_def item_def)

lemma describe_table_missing:
  "\<not> has_key a ''database'' \<or> \<not> has_key a ''table'' \<Longrightarrow>
     \<exists>k \<in> {''database'', ''table''}. \<not> has_key a k
        \<and> dispatch D s ''describe_table'' a = (Inl (KeyError k), s)"
  by (cases "arg_database a"; cases "arg_table a")
     (auto simp: dispatch_def tool_describe_table_def has_key_def item_def)

lemma insert_record_missing:
  "\<not> has_key a ''database'' \<or> \<not> has_key a ''table'' \<or> \<not> has_key a ''data'' \<Longrightarrow>
     \<exists>k \<in> {''database'', ''table'', ''data''}. \<not> has_key a k
        \<and> dispatch D s ''insert_record'' a = (Inl (KeyError k), s)"
  by (cases "arg_database a"; cases "arg_table a"; cases "arg_data a")
     (auto simp: dispatch_def tool_insert_record_def has_key_def item_def)

lemma update_record_missing:
  "\<not> has_key a ''database'' \<or> \<not> has_key a ''table'' \<or> \<not> has_key a ''data''
     \<or> \<not> has_key a ''where'' \<Longrightarrow>
     \<exists>k \<in> {''database'', ''table'', ''data'', ''where''}. \<not> has_key a k
        \<and> dispatch D s ''update_record'' a = (Inl (KeyError k), s)"
  by (cases "arg_database a"; cases "arg_table a"; cases "arg_data a"; cases "arg_where a")
     (auto simp: dispatch_def tool_update_record_def has_key_def item_def)

lemma search_patients_missing:
  "\<not> has_key a ''search_term'' \<Longrightarrow>
     dispatch D s ''search_patients'' a = (Inl (KeyError ''search_term''), s)"
  by (cases "arg_search_term a")
     (auto simp: dispatch_def tool_search_patients_def has_key_def item_def)

lemma get_appointments_missing:
  "\<not> has_key a ''date'' \<Longrightarrow>
     dispatch D s ''get_appointments'' a = (Inl (KeyError ''date''), s)"
  by (cases "arg_date a")
     (auto simp: dispatch_def tool_get_appointments_def has_key_def item_def)

text \<open>
  Claim C4. For a tool of the catalog and an argument dictionary that lacks one of the
  arguments the tool's schema requires, \<^verbatim>\<open>call_tool\<close> returns the failure envelope of
  the \<^verbatim>\<open>KeyError\<close> of a required argument that is missing, and the server is unchanged:
  no connection is added to the registry and no call reaches the driver.
\<close>

theorem missing_required_argument:
  assumes "tool \<in> set list_tools" and "key \<in> set (required tool)" and "\<not> has_key a key"
  shows "\<exists>k \<in> set (required tool). \<not> has_key a k
           \<and> call_tool D s (tool_name tool) a
             = (\<lparr>content = [text_content (JObj
                    [(''success'', JBool False), (''error'', JStr (str_exn (KeyError k)))])],
                 isError = True\<rparr>, s)"
proof -
  have "\<exists>k \<in> set (required tool). \<not> has_key a k
           \<and> dispatch D s (tool_name tool) a = (Inl (KeyError k), s)"
    using assms(1)
    unfolding list_tools_def
  proof (simp, elim disjE)
    assume t: "tool = \<lparr>tool_name = ''query'', properties = [''database'', ''sql'', ''limit''],
        required = [''database'', ''sql'']\<rparr>"
    with assms(2,3) query_missing[of a D s] show ?thesis by auto
  next
    assume t: "tool = \<lparr>tool_name = ''list_tables'', properties = [''database''],
        required = [''database'']\<rparr>"
    with assms(2,3) list_tables_missing[of a D s] show ?thesis by auto
  next
    assume t: "tool = \<lparr>tool_name = ''describe_table'', properties = [''database'', ''table''],
        required = [''database'', ''table'']\<rparr>"
    with assms(2,3) describe_table_missing[of a D s] show ?thesis by auto
  next
    assume t: "tool = \<lparr>tool_name = ''insert_record'', properties = [''database'', ''table'', ''data''],
        required = [''database'', ''table'', ''data'']\<rparr>"
    with assms(2,3) insert_record_missing[of a D s] show ?thesis by auto
  next
    assume t: "tool = \<lparr>tool_name = ''update_record'', properties = [''database'', ''table'', ''data'', ''where''],
        required = [''database'', ''table'', ''data'', ''where'']\<rparr>"
    with assms(2,3) update_record_missing[of a D s] show ?thesis by auto
  next
    assume t: "tool = \<lparr>tool_name = ''list_all_databases'', properties = [], required = []\<rparr>"
    with assms(2) show ?thesis by simp
  next
    assume t: "tool = \<lparr>tool_name = ''search_patients'', properties = [''search_term'', ''field'', ''limit''],
        required = [''search_term'']\<rparr>"
    with assms(2,3) search_patients_missing[of a D s] show ?thesis by auto
  next
    assume t: "tool = \<lparr>tool_name = ''get_appointments'', properties = [''date'', ''end_date'', ''patient_id''],
        required = [''date'']\<rparr>"
    with assms(2,3) get_appointments_missing[of a D s] show ?thesis by auto
  next
    assume t: "tool = \<lparr>tool_name = ''get_transactions'',
        properties = [''patient_id'', ''start_date'', ''end_date'', ''limit''],
        required = []\<rparr>"
    with assms(2) show ?thesis by simp
  qed
  then show ?thesis by (auto simp: call_tool_raises)
qed

theorem missing_required_argument_witness:
  "\<lparr>tool_name = ''query'', properties = [''database'', ''sql'', ''limit''],
        required = [''database'', ''sql'']\<rparr> \<in> set list_tools
   \<and> ''sql'' \<in> set (required \<lparr>tool_name = ''query'',
          properties = [''database'', ''sql'', ''limit''], required = [''database'', ''sql'']\<rparr>)
   \<and> \<not> has_key (no_arguments\<lparr>arg_database := Some ''Patients''\<rparr>) ''sql''
   \<and> call_tool demo_driver (create_server demo_config) ''query''
         (no_arguments\<lparr>arg_database := Some ''Patients''\<rparr>)
       = (\<lparr>content = [text_content (JObj
              [(''success'', JBool False), (''error'', JStr (str_exn (KeyError ''sql'')))])],
           isError = True\<rparr>, create_server demo_config)"
proof -
  have t: "\<lparr>tool_name = ''query'', properties = [''database'', ''sql'', ''limit''],
        required = [''database'', ''sql'']\<rparr> \<in> set list_tools"
    by (simp add: list_tools_def)
  have k: "''sql'' \<in> set (required \<lparr>tool_name = ''query'',
          properties = [''database'', ''sql'', ''limit''], required = [''database'', ''sql'']\<rparr>)"
    by simp
  have m: "\<not> has_key (no_arguments\<lparr>arg_database := Some ''Patients''\<rparr>) ''sql''"
    by (simp add: has_key_def no_arguments_def)
  have d: "has_key (no_arguments\<lparr>arg_database := Some ''Patients''\<rparr>) ''database''"
    by (simp add: has_key_def no_arguments_def)
  from missing_required_argument[OF t k m, of demo_driver "create_server demo_config"] t k m d
  show ?thesis by auto
qed

lemma unknown_names:
  "nm \<notin> tool_name ` set list_tools \<Longrightarrow>
     dispatch D s nm a =
       (Inr \<lparr>content = [text_content (JObj [(''error'', JStr (''Unknown tool: '' @ nm))])],
              isError = True\<rparr>, s)"
  by (simp add: list_tools_def dispatch_def)

text \<open>
  Claim C5, as amended. For a name that is not in the catalog, \<^verbatim>\<open>call_tool\<close> returns a
  response with \<^verbatim>\<open>isError\<close> set whose document has the single field \<^verbatim>\<open>error\<close>
  (\<^verbatim>\<open>Unknown tool:\<close> and the name), and the server is unchanged. The flag does not set
  this response apart: every exception of a tool is answered with \<^verbatim>\<open>isError\<close> set as
  well, in a document with \<^verbatim>\<open>success\<close> false. The two differ by the document only.
\<close>

theorem unknown_tool_envelope:
  assumes "nm \<notin> tool_name ` set list_tools"
  shows "call_tool D s nm a
           = (\<lparr>content = [text_content (JObj [(''error'', JStr (''Unknown tool: '' @ nm))])],
               isError = True\<rparr>, s)
       \<and> (\<forall>nm' a' e s1. dispatch D s nm' a' = (Inl e, s1) \<longrightarrow>
             call_tool D s nm' a'
               = (\<lparr>content = [text_content (JObj
                      [(''success'', JBool False), (''error'', JStr (str_exn e))])],
                   isError = True\<rparr>, s1))"
  using unknown_names[OF assms, of D s a] by (simp add: call_tool_def)

theorem unknown_tool_envelope_witness:
  "''drop_table'' \<notin> tool_name ` set list_tools
   \<and> call_tool demo_driver (create_server demo_config) ''drop_table'' no_arguments
       = (\<lparr>content = [text_content (JObj [(''error'', JStr ''Unknown tool: drop_table'')])],
           isError = True\<rparr>, create_server demo_config)"
proof -
  have n: "''drop_table'' \<notin> tool_name ` set list_tools"
    by (simp add: list_tools_def)
  from unknown_tool_envelope[OF n, of demo_driver "create_server demo_config" no_arguments] n
  show ?thesis by simp
qed

text \<open>
  The claim as stated fails: the response to the unknown name \<^verbatim>\<open>drop_table\<close> and the
  ordinary failure of \<^verbatim>\<open>query\<close> without arguments carry the same flag.
\<close>

theorem unknown_tool_flag_counterexample:
  "''drop_table'' \<notin> tool_name ` set list_tools
   \<and> fst (call_tool demo_driver (create_server demo_config) ''query'' no_arguments)
       = \<lparr>content = [text_content (JObj
              [(''success'', JBool False), (''error'', JStr (str_exn (KeyError ''database'')))])],
           isError = True\<rparr>
   \<and> isError (fst (call_tool demo_driver (create_server demo_config) ''drop_table'' no_arguments))
       = isError (fst (call_tool demo_driver (create_server demo_config) ''query'' no_arguments))"
  by (simp add: list_tools_def call_tool_def dispatch_def tool_query_def item_def no_arguments_def)

section \<open>The reading tools\<close>

lemma get_connection_trace:
  "get_connection D s db = (r, s1) \<Longrightarrow>
     \<exists>new. trace s1 = trace s @ new \<and> (\<forall>ev \<in> set new. ev = Connect (connection_string (fm_config s) db))"
  by (auto simp: get_connection_def connect_def Let_def split: option.splits sum.splits)

lemma execute_query_trace:
  "execute_query D conn sql params limit s1 = (r, s2) \<Longrightarrow>
     \<exists>new. trace s2 = trace s1 @ new
       \<and> (\<forall>ev \<in> set new. (\<exists>h. ev = Execute h sql (bound_params params)) \<or> (\<exists>h. ev = Fetchmany h limit))"
  by (auto simp: execute_query_def Let_def split: option.splits sum.splits)

lemma run_read_trace:
  assumes "run_read D s db sql params limit = (r, s')"
  shows "\<exists>new. trace s' = trace s @ new
       \<and> (\<forall>h q p. Execute h q p \<in> set new \<longrightarrow> q = sql \<and> p = bound_params params)
       \<and> (\<forall>h n. Fetchmany h n \<in> set new \<longrightarrow> n = limit)"
proof -
  obtain c s1 where c: "get_connection D s db = (c, s1)" by (cases "get_connection D s db")
  from get_connection_trace[OF c] obtain new1 where
    n1: "trace s1 = trace s @ new1" "\<forall>ev \<in> set new1. ev = Connect (connection_string (fm_config s) db)"
    by blast
  show ?thesis
  proof (cases c)
    case (Inl e)
    with assms c have "s' = s1" by (simp add: run_read_def)
    with n1 show ?thesis by auto
  next
    case (Inr conn)
    obtain q s2 where q: "execute_query D conn sql params limit s1 = (q, s2)"
      by (cases "execute_query D conn sql params limit s1")
    from assms c Inr q have "s' = s2" by (cases q) (simp_all add: run_read_def)
    moreover from execute_query_trace[OF q] obtain new2 where
      "trace s2 = trace s1 @ new2"
      "\<forall>ev \<in> set new2. (\<exists>h. ev = Execute h sql (bound_params params)) \<or> (\<exists>h. ev = Fetchmany h limit)"
      by blast
    ultimately show ?thesis using n1
      by (intro exI[of _ "new1 @ new2"]) auto
  qed
qed

lemma run_read_raises:
  assumes "run_read D s db sql params limit = (Inl e, s')"
  shows "get_connection D s db = (Inl e, s')
       \<or> (\<exists>conn s1. get_connection D s db = (Inr conn, s1)
             \<and> execute_query D conn sql params limit s1 = (Inl e, s'))"
  using assms
  by (auto simp: run_read_def split: prod.splits sum.splits)

lemma transactions_filters_present:
  "transactions_filters p b e = map (\<lambda>(c, x). (c, StrV x)) (present_filters p b e)"
  by (cases p; cases b; cases e) (simp_all add: transactions_filters_def present_filters_def truthy_def)

lemma present_filters_none: "present_filters None None None = []"
  by (simp add: present_filters_def)

lemma dispatch_get_transactions:
  "dispatch D s ''get_transactions'' a =
     run_read D s ''Transactions''
       (''SELECT * FROM Transactions''
          @ (if present_filters (arg_patient_id a) (arg_start_date a) (arg_end_date a) = [] then []
             else '' WHERE '' @ join '' AND ''
                    (map fst (present_filters (arg_patient_id a) (arg_start_date a) (arg_end_date a)))))
       (if present_filters (arg_patient_id a) (arg_start_date a) (arg_end_date a) = [] then None
        else Some (map (\<lambda>(c, x). StrV x)
                    (present_filters (arg_patient_id a) (arg_start_date a) (arg_end_date a))))
       (case arg_limit a of None \<Rightarrow> 100 | Some l \<Rightarrow> l)"
  by (simp add: dispatch_def tool_get_transactions_def transactions_sql_def Let_def
      transactions_filters_present comp_def case_prod_unfold)

lemma bound_params_nonempty: "xs \<noteq> [] \<Longrightarrow> bound_params (Some xs) = Some xs"
  by (cases xs) (simp_all add: bound_params_def)

lemma bound_params_None: "bound_params None = None"
  by (simp add: bound_params_def)

lemma call_tool_state:
  "call_tool D s nm a = (result, s') \<Longrightarrow> \<exists>r. dispatch D s nm a = (r, s')"
  by (auto simp: call_tool_def split: prod.splits sum.splits)

lemma call_tool_returns:
  "dispatch D s nm a = (Inr r, s') \<Longrightarrow> call_tool D s nm a = (r, s')"
  by (simp add: call_tool_def)

lemma demo_get_transactions_connection:
  "get_connection demo_driver (create_server demo_config) ''Transactions''
     = (Inr demo_transactions,
        \<lparr>fm_config = demo_config,
         connections = [''Transactions'' \<mapsto> demo_transactions],
         trace = [Connect ''DSN=FileMaker;ServerDataSource=Transactions''],
         next_serial = Suc 0\<rparr>)"
  by (simp add: get_connection_def connect_def connection_string_def create_server_def
      demo_driver_def demo_config_def demo_transactions_def Let_def)

text \<open>
  What a reading tool passes to the driver once the connection is there, what it answers
  when the connection fails, and what it answers when the driver serves the statement.
\<close>

lemma run_read_sends:
  assumes "get_connection D s db = (Inr conn, s1)" and "connection conn = Some h"
  shows "\<exists>r s' rest. run_read D s db sql params limit = (r, s')
           \<and> trace s' = trace s1 @ Execute h sql (bound_params params) # rest
           \<and> (rest = [] \<or> rest = [Fetchmany h limit])"
  using assms
  by (auto simp: run_read_def execute_query_def Let_def split: sum.splits)

lemma run_read_unreachable:
  "get_connection D s db = (Inl e, s1) \<Longrightarrow> run_read D s db sql params limit = (Inl e, s1)"
  by (simp add: run_read_def)

lemma run_read_fetched:
  assumes "get_connection D s db = (Inr conn, s1)"
    and "connection conn = Some h"
    and "odbc_execute D (source h) sql (bound_params params) = Inr cur"
    and "pending cur = Inr rows"
  shows "run_read D s db sql params limit
     = (Inr (rows_result (map (\<lambda>row. dict (zip (column_names cur) row)) (fetchmany D limit rows))),
        s1\<lparr>trace := trace s1 @ [Execute h sql (bound_params params), Fetchmany h limit]\<rparr>)"
  using assms
  by (simp add: run_read_def execute_query_def Let_def)

lemma call_tool_total:
  "dispatch D s nm a = (r, s') \<Longrightarrow> \<exists>result. call_tool D s nm a = (result, s')"
  by (cases r) (simp_all add: call_tool_def)

lemma filtered_values_bound: "bound_params (filtered_values fs) = filtered_values fs"
  by (cases fs) (simp_all add: filtered_values_def bound_params_def)

lemma dispatch_transactions:
  "dispatch D s ''get_transactions'' a =
     run_read D s ''Transactions''
       (filtered_statement (present_filters (arg_patient_id a) (arg_start_date a) (arg_end_date a)))
       (filtered_values (present_filters (arg_patient_id a) (arg_start_date a) (arg_end_date a)))
       (case arg_limit a of None \<Rightarrow> 100 | Some l \<Rightarrow> l)"
  by (simp add: dispatch_get_transactions filtered_statement_def filtered_values_def)

text \<open>
  Claim C7, as amended. Whenever the connection to \<^verbatim>\<open>Transactions\<close> is obtained, a
  \<^verbatim>\<open>get_transactions\<close> call passes one statement to the driver, and no other:
  \<^verbatim>\<open>SELECT * FROM Transactions\<close>, followed, when a filter is given, by \<^verbatim>\<open>WHERE\<close> and the
  predicates that are present joined with \<^verbatim>\<open>AND\<close>, in the order patient id, start date,
  end date, their values bound in the same order. With none of the three arguments
  supplied the statement has no \<^verbatim>\<open>WHERE\<close> clause and no parameter. Building the statement
  raises nothing: an exception of the handler is one of \<^verbatim>\<open>get_connection\<close> or of
  \<^verbatim>\<open>execute_query\<close>, and a failed connection is answered with the failure envelope.
  When the driver serves the statement, the call returns the success envelope with the
  rows that \<^verbatim>\<open>fetchmany(limit)\<close> delivers, \<^verbatim>\<open>row_count\<close> being their number; they are
  the first \<open>limit\<close> rows, and so at most \<open>limit\<close>, when the limit is not negative.
\<close>

theorem get_transactions_statement:
  "(\<forall>conn s1 h. get_connection D s ''Transactions'' = (Inr conn, s1) \<and> connection conn = Some h \<longrightarrow>
      (\<exists>result s' rest. call_tool D s ''get_transactions'' a = (result, s')
         \<and> trace s' = trace s1
              @ Execute h
                  (filtered_statement
                     (present_filters (arg_patient_id a) (arg_start_date a) (arg_end_date a)))
                  (filtered_values
                     (present_filters (arg_patient_id a) (arg_start_date a) (arg_end_date a)))
                # rest
         \<and> (rest = [] \<or> rest = [Fetchmany h (case arg_limit a of None \<Rightarrow> 100 | Some l \<Rightarrow> l)])))
   \<and> (\<forall>e s1. get_connection D s ''Transactions'' = (Inl e, s1) \<longrightarrow>
        call_tool D s ''get_transactions'' a
          = (\<lparr>content = [text_content (JObj
                 [(''success'', JBool False), (''error'', JStr (str_exn e))])],
              isError = True\<rparr>, s1))
   \<and> (\<forall>result s'. call_tool D s ''get_transactions'' a = (result, s') \<longrightarrow>
        (\<exists>new. trace s' = trace s @ new
           \<and> (\<forall>h q p. Execute h q p \<in> set new \<longrightarrow>
                 q = filtered_statement
                       (present_filters (arg_patient_id a) (arg_start_date a) (arg_end_date a))
               \<and> p = filtered_values
                       (present_filters (arg_patient_id a) (arg_start_date a) (arg_end_date a)))))
   \<and> (\<forall>e s'. dispatch D s ''get_transactions'' a = (Inl e, s') \<longrightarrow>
          get_connection D s ''Transactions'' = (Inl e, s')
        \<or> (\<exists>conn s1. get_connection D s ''Transactions'' = (Inr conn, s1)
              \<and> execute_query D conn
                    (filtered_statement
                       (present_filters (arg_patient_id a) (arg_start_date a) (arg_end_date a)))
                    (filtered_values
                       (present_filters (arg_patient_id a) (arg_start_date a) (arg_end_date a)))
                    (case arg_limit a of None \<Rightarrow> 100 | Some l \<Rightarrow> l) s1 = (Inl e, s')))
   \<and> (\<forall>conn s1 h cur rows.
          get_connection D s ''Transactions'' = (Inr conn, s1)
        \<and> connection conn = Some h
        \<and> odbc_execute D (source h)
             (filtered_statement
                (present_filters (arg_patient_id a) (arg_start_date a) (arg_end_date a)))
             (filtered_values
                (present_filters (arg_patient_id a) (arg_start_date a) (arg_end_date a)))
            = Inr cur
        \<and> pending cur = Inr rows \<longrightarrow>
          (\<exists>results.
              results = map (\<lambda>row. dict (zip (column_names cur) row))
                          (fetchmany D (case arg_limit a of None \<Rightarrow> 100 | Some l \<Rightarrow> l) rows)
            \<and> (0 \<le> (case arg_limit a of None \<Rightarrow> 100 | Some l \<Rightarrow> l) \<longrightarrow>
                  results = map (\<lambda>row. dict (zip (column_names cur) row))
                              (take (nat (case arg_limit a of None \<Rightarrow> 100 | Some l \<Rightarrow> l)) rows)
                \<and> length results \<le> nat (case arg_limit a of None \<Rightarrow> 100 | Some l \<Rightarrow> l))
            \<and> call_tool D s ''get_transactions'' a
                = (\<lparr>content = [text_content (JObj
                       [(''success'', JBool True),
                        (''row_count'', JInt (int (length results))),
                        (''data'', JArr (map (\<lambda>row. JObj (map (\<lambda>(k, v). (k, json_of_sqlval v)) row))
                                           results))])],
                    isError = False\<rparr>,
                   s1\<lparr>trace := trace s1
                        @ [Execute h
                             (filtered_statement
                                (present_filters (arg_patient_id a) (arg_start_date a)
                                   (arg_end_date a)))
                             (filtered_values
                                (present_filters (arg_patient_id a) (arg_start_date a)
                                   (arg_end_date a))),
                           Fetchmany h (case arg_limit a of None \<Rightarrow> 100 | Some l \<Rightarrow> l)]\<rparr>)))
   \<and> (arg_patient_id a = None \<and> arg_start_date a = None \<and> arg_end_date a = None \<longrightarrow>
        filtered_statement
          (present_filters (arg_patient_id a) (arg_start_date a) (arg_end_date a))
          = ''SELECT * FROM Transactions''
      \<and> filtered_values
          (present_filters (arg_patient_id a) (arg_start_date a) (arg_end_date a)) = None)"
  (is "?sends \<and> ?unreachable \<and> ?only \<and> ?raises \<and> ?served \<and> ?plain")
proof (intro conjI)
  let ?F = "present_filters (arg_patient_id a) (arg_start_date a) (arg_end_date a)"
  let ?L = "case arg_limit a of None \<Rightarrow> 100 | Some l \<Rightarrow> l"
  note d = dispatch_transactions[of D s a]
  show ?sends
  proof (intro allI impI, elim conjE)
    fix conn s1 h
    assume c: "get_connection D s ''Transactions'' = (Inr conn, s1)" "connection conn = Some h"
    from run_read_sends[OF c, of "filtered_statement ?F" "filtered_values ?F" ?L]
    obtain r s' rest where r: "dispatch D s ''get_transactions'' a = (r, s')"
      "trace s' = trace s1 @ Execute h (filtered_statement ?F) (filtered_values ?F) # rest"
      "rest = [] \<or> rest = [Fetchmany h ?L]"
      unfolding d filtered_values_bound by blast
    from call_tool_total[OF r(1)] obtain result where
      "call_tool D s ''get_transactions'' a = (result, s')" by blast
    with r(2,3) show "\<exists>result s' rest. call_tool D s ''get_transactions'' a = (result, s')
         \<and> trace s' = trace s1 @ Execute h (filtered_statement ?F) (filtered_values ?F) # rest
         \<and> (rest = [] \<or> rest = [Fetchmany h ?L])"
      by blast
  qed
  show ?unreachable
    by (simp add: call_tool_raises d run_read_unreachable)
  show ?only
  proof (intro allI impI)
    fix result s'
    assume "call_tool D s ''get_transactions'' a = (result, s')"
    then obtain r where r: "dispatch D s ''get_transactions'' a = (r, s')"
      using call_tool_state by blast
    from run_read_trace[OF r[unfolded d]]
    show "\<exists>new. trace s' = trace s @ new
           \<and> (\<forall>h q p. Execute h q p \<in> set new \<longrightarrow>
                 q = filtered_statement ?F \<and> p = filtered_values ?F)"
      unfolding filtered_values_bound by blast
  qed
  show ?raises
    unfolding d using run_read_raises by blast
  show ?served
  proof (intro allI impI, elim conjE)
    fix conn s1 h cur rows
    assume c: "get_connection D s ''Transactions'' = (Inr conn, s1)"
      "connection conn = Some h"
      "odbc_execute D (source h) (filtered_statement ?F) (filtered_values ?F) = Inr cur"
      "pending cur = Inr rows"
    have "odbc_execute D (source h) (filtered_statement ?F) (bound_params (filtered_values ?F))
        = Inr cur"
      using c(3) by (simp add: filtered_values_bound)
    from run_read_fetched[OF c(1) c(2) this c(4), of ?L]
    have call: "call_tool D s ''get_transactions'' a
      = (rows_result (map (\<lambda>row. dict (zip (column_names cur) row)) (fetchmany D ?L rows)),
         s1\<lparr>trace := trace s1 @ [Execute h (filtered_statement ?F) (filtered_values ?F),
                                  Fetchmany h ?L]\<rparr>)"
      by (simp add: call_tool_returns d filtered_values_bound)
    show "\<exists>results.
              results = map (\<lambda>row. dict (zip (column_names cur) row)) (fetchmany D ?L rows)
            \<and> (0 \<le> ?L \<longrightarrow>
                  results = map (\<lambda>row. dict (zip (column_names cur) row)) (take (nat ?L) rows)
                \<and> length results \<le> nat ?L)
            \<and> call_tool D s ''get_transactions'' a
                = (\<lparr>content = [text_content (JObj
                       [(''success'', JBool True),
                        (''row_count'', JInt (int (length results))),
                        (''data'', JArr (map (\<lambda>row. JObj (map (\<lambda>(k, v). (k, json_of_sqlval v)) row))
                                           results))])],
                    isError = False\<rparr>,
                   s1\<lparr>trace := trace s1
                        @ [Execute h (filtered_statement ?F) (filtered_values ?F),
                           Fetchmany h ?L]\<rparr>)"
      by (simp add: call rows_result_def tool_result_def fetchmany_def)
  qed
  show ?plain
    by (simp add: present_filters_none filtered_statement_def filtered_values_def)
qed

theorem get_transactions_statement_witness:
  \<open>get_connection demo_driver (create_server demo_config) ''Transactions''
     = (Inr demo_transactions,
        \<lparr>fm_config = demo_config,
         connections = [''Transactions'' \<mapsto> demo_transactions],
         trace = [Connect ''DSN=FileMaker;ServerDataSource=Transactions''],
         next_serial = Suc 0\<rparr>)
   \<and> arg_patient_id (no_arguments\<lparr>arg_limit := Some 2\<rparr>) = None
   \<and> arg_start_date (no_arguments\<lparr>arg_limit := Some 2\<rparr>) = None
   \<and> arg_end_date (no_arguments\<lparr>arg_limit := Some 2\<rparr>) = None
   \<and> call_tool demo_driver (create_server demo_config) ''get_transactions''
         (no_arguments\<lparr>arg_limit := Some 2\<rparr>)
     = (\<lparr>content = [text_content (JObj
            [(''success'', JBool True),
             (''row_count'', JInt 2),
             (''data'', JArr [JObj [(''id'', JInt 7), (''name'', JStr ''Ann'')],
                              JObj [(''id'', JInt 8), (''name'', JStr ''Bob'')]])])],
         isError = False\<rparr>,
        \<lparr>fm_config = demo_config,
         connections = [''Transactions'' \<mapsto> demo_transactions],
         trace = [Connect ''DSN=FileMaker;ServerDataSource=Transactions'',
                  Execute \<lparr>serial = 0, source = ''DSN=FileMaker;ServerDataSource=Transactions''\<rparr>
                    ''SELECT * FROM Transactions'' None,
                  Fetchmany \<lparr>serial = 0, source = ''DSN=FileMaker;ServerDataSource=Transactions''\<rparr> 2],
         next_serial = Suc 0\<rparr>)
   \<and> call_tool demo_driver (create_server demo_config) ''get_transactions''
         (no_arguments\<lparr>arg_patient_id := Some ''P1'', arg_end_date := Some ''2024-12-31''\<rparr>)
     = (\<lparr>content = [text_content (JObj
            [(''success'', JBool True),
             (''row_count'', JInt 3),
             (''data'', JArr [JObj [(''id'', JInt 7), (''name'', JStr ''Ann'')],
                              JObj [(''id'', JInt 8), (''name'', JStr ''Bob'')],
                              JObj [(''id'', JInt 9), (''name'', JStr ''Cy'')]])])],
         isError = False\<rparr>,
        \<lparr>fm_config = demo_config,
         connections = [''Transactions'' \<mapsto> demo_transactions],
         trace = [Connect ''DSN=FileMaker;ServerDataSource=Transactions'',
                  Execute \<lparr>serial = 0, source = ''DSN=FileMaker;ServerDataSource=Transactions''\<rparr>
                    ''SELECT * FROM Transactions WHERE "patient id#" = ? AND "trans date" <= ?''
                    (Some [StrV ''P1'', StrV ''2024-12-31'']),
                  Fetchmany \<lparr>serial = 0, source = ''DSN=FileMaker;ServerDataSource=Transactions''\<rparr>
                    100],
         next_serial = Suc 0\<rparr>)\<close>
proof -
  let ?h = "\<lparr>serial = 0, source = ''DSN=FileMaker;ServerDataSource=Transactions''\<rparr>"
  let ?a0 = "no_arguments\<lparr>arg_limit := Some 2\<rparr>"
  let ?a1 = "no_arguments\<lparr>arg_patient_id := Some ''P1'', arg_end_date := Some ''2024-12-31''\<rparr>"
  note conn = demo_get_transactions_connection
  have h: "connection demo_transactions = Some ?h"
    by (simp add: demo_transactions_def)
  have ex: "odbc_execute demo_driver (source ?h) q p = Inr demo_cursor" for q p
    by (simp add: demo_driver_def)
  have rows: "pending demo_cursor = Inr [[IntV 1, StrV ''Ann'', IntV 7],
                     [IntV 2, StrV ''Bob'', IntV 8],
                     [IntV 3, StrV ''Cy'', IntV 9]]"
    by (simp add: demo_cursor_def)
  have none: "arg_patient_id ?a0 = None \<and> arg_start_date ?a0 = None \<and> arg_end_date ?a0 = None"
    by (simp add: no_arguments_def)
  have lim: "(case arg_limit ?a0 of None \<Rightarrow> 100 | Some l \<Rightarrow> l) = 2"
    "(case arg_limit ?a1 of None \<Rightarrow> 100 | Some l \<Rightarrow> l) = 100"
    by (simp_all add: no_arguments_def)
  note served = get_transactions_statement[THEN conjunct2, THEN conjunct2, THEN conjunct2,
      THEN conjunct2, THEN conjunct1, rule_format, OF conjI[OF conn conjI[OF h conjI[OF ex rows]]]]
  from served[of ?a0] have c0: "call_tool demo_driver (create_server demo_config)
      ''get_transactions'' ?a0
     = (\<lparr>content = [text_content (JObj
            [(''success'', JBool True),
             (''row_count'', JInt 2),
             (''data'', JArr [JObj [(''id'', JInt 7), (''name'', JStr ''Ann'')],
                              JObj [(''id'', JInt 8), (''name'', JStr ''Bob'')]])])],
         isError = False\<rparr>,
        \<lparr>fm_config = demo_config,
         connections = [''Transactions'' \<mapsto> demo_transactions],
         trace = [Connect ''DSN=FileMaker;ServerDataSource=Transactions'',
                  Execute ?h ''SELECT * FROM Transactions'' None,
                  Fetchmany ?h 2],
         next_serial = Suc 0\<rparr>)"
    unfolding lim
    by (simp add: filtered_statement_def filtered_values_def present_filters_def
        no_arguments_def column_names_def demo_cursor_def dict_def json_of_sqlval_def
        fetchmany_def numeral_2_eq_2)
  from served[of ?a1] have c1: \<open>call_tool demo_driver (create_server demo_config)
      ''get_transactions'' ?a1
     = (\<lparr>content = [text_content (JObj
            [(''success'', JBool True),
             (''row_count'', JInt 3),
             (''data'', JArr [JObj [(''id'', JInt 7), (''name'', JStr ''Ann'')],
                              JObj [(''id'', JInt 8), (''name'', JStr ''Bob'')],
                              JObj [(''id'', JInt 9), (''name'', JStr ''Cy'')]])])],
         isError = False\<rparr>,
        \<lparr>fm_config = demo_config,
         connections = [''Transactions'' \<mapsto> demo_transactions],
         trace = [Connect ''DSN=FileMaker;ServerDataSource=Transactions'',
                  Execute ?h
                    ''SELECT * FROM Transactions WHERE "patient id#" = ? AND "trans date" <= ?''
                    (Some [StrV ''P1'', StrV ''2024-12-31'']),
                  Fetchmany ?h 100],
         next_serial = Suc 0\<rparr>)\<close>
    unfolding lim
    by (simp add: filtered_statement_def filtered_values_def present_filters_def
        no_arguments_def column_names_def demo_cursor_def dict_def json_of_sqlval_def
        fetchmany_def)
  from conn none c0 c1 show ?thesis by simp
qed

text \<open>
  The claim as stated fails for a call without filters in two ways. With the limit
  \<^verbatim>\<open>-1\<close> the concrete driver delivers all three rows of the result, so the envelope is
  not bounded by the limit. And when the database cannot be reached, the envelope is the
  failure envelope, not a success.
\<close>

theorem get_transactions_limit_counterexample:
  "arg_patient_id (no_arguments\<lparr>arg_limit := Some (- 1)\<rparr>) = None
   \<and> arg_start_date (no_arguments\<lparr>arg_limit := Some (- 1)\<rparr>) = None
   \<and> arg_end_date (no_arguments\<lparr>arg_limit := Some (- 1)\<rparr>) = None
   \<and> fst (call_tool demo_driver (create_server demo_config) ''get_transactions''
         (no_arguments\<lparr>arg_limit := Some (- 1)\<rparr>))
     = \<lparr>content = [text_content (JObj
            [(''success'', JBool True),
             (''row_count'', JInt 3),
             (''data'', JArr [JObj [(''id'', JInt 7), (''name'', JStr ''Ann'')],
                              JObj [(''id'', JInt 8), (''name'', JStr ''Bob'')],
                              JObj [(''id'', JInt 9), (''name'', JStr ''Cy'')]])])],
         isError = False\<rparr>
   \<and> \<not> (3::int) \<le> - 1
   \<and> fst (call_tool offline_driver (create_server demo_config) ''get_transactions'' no_arguments)
     = \<lparr>content = [text_content (JObj
            [(''success'', JBool False), (''error'', JStr ''unreachable'')])],
         isError = True\<rparr>"
  by (simp add: call_tool_def dispatch_def tool_get_transactions_def transactions_filters_def
      transactions_sql_def truthy_def no_arguments_def run_read_def get_connection_def
      connect_def connection_string_def execute_query_def bound_params_def column_names_def
      fetchmany_def dict_def rows_result_def tool_result_def json_of_sqlval_def
      create_server_def offline_driver_def demo_driver_def demo_config_def demo_cursor_def
      Let_def)

section \<open>Listing all databases\<close>

lemma list_all_loop_step:
  "list_all_loop D (db # dbs) info s =
     list_all_loop D dbs (dict_set db (db_entry (fst (list_one D s db))) info)
       (snd (list_one D s db))"
  by (simp add: list_one_def db_entry_def split: prod.splits sum.splits)

lemma list_one_frame:
  "other \<noteq> db \<Longrightarrow> connections (snd (list_one D s db)) other = connections s other"
  by (auto simp: list_one_def get_connection_def connect_def get_tables_def Let_def
      split: prod.splits sum.splits option.splits)

lemma list_one_config: "fm_config (snd (list_one D s db)) = fm_config s"
  by (auto simp: list_one_def get_connection_def connect_def get_tables_def Let_def
      split: prod.splits sum.splits option.splits)

lemma list_one_cong:
  "connections s1 db = connections s db \<Longrightarrow> fm_config s1 = fm_config s
     \<Longrightarrow> fst (list_one D s1 db) = fst (list_one D s db)"
  by (auto simp: list_one_def get_connection_def connect_def get_tables_def Let_def
      split: prod.splits sum.splits option.splits)

lemma list_all_loop_entries:
  "distinct dbs \<Longrightarrow> list_all_loop D dbs info s = (info', s') \<Longrightarrow>
     (\<forall>db \<in> set dbs. map_of info' db = Some (db_entry (fst (list_one D s db))))
   \<and> (\<forall>k. k \<notin> set dbs \<longrightarrow> map_of info' k = map_of info k)"
proof (induction dbs arbitrary: info s)
  case Nil
  then show ?case by simp
next
  case (Cons db dbs)
  let ?s1 = "snd (list_one D s db)"
  let ?info1 = "dict_set db (db_entry (fst (list_one D s db))) info"
  from Cons.prems have d: "distinct dbs" and nin: "db \<notin> set dbs" by auto
  from Cons.prems(2) have run: "list_all_loop D dbs ?info1 ?s1 = (info', s')"
    by (simp only: list_all_loop_step)
  note ih = Cons.IH[OF d run]
  have same: "fst (list_one D ?s1 x) = fst (list_one D s x)" if "x \<in> set dbs" for x
  proof -
    from that nin have "x \<noteq> db" by auto
    then show ?thesis by (intro list_one_cong list_one_frame list_one_config)
  qed
  show ?case
  proof (intro conjI ballI allI impI)
    fix x assume x: "x \<in> set (db # dbs)"
    show "map_of info' x = Some (db_entry (fst (list_one D s x)))"
    proof (cases "x = db")
      case True
      with ih nin have "map_of info' x = map_of ?info1 db" by simp
      then show ?thesis using True by (simp add: map_of_dict_set)
    next
      case False
      with x have "x \<in> set dbs" by simp
      with ih same show ?thesis by simp
    qed
  next
    fix k assume "k \<notin> set (db # dbs)"
    then have "k \<notin> set dbs" "k \<noteq> db" by auto
    with ih show "map_of info' k = map_of info k" by (simp add: map_of_dict_set)
  qed
qed

lemma keys_dict_set_new:
  "k \<notin> fst ` set d \<Longrightarrow> map fst (dict_set k v d) = map fst d @ [k]"
  by (induction d) auto

lemma list_all_loop_keys:
  "distinct (map fst info @ dbs) \<Longrightarrow> list_all_loop D dbs info s = (info', s') \<Longrightarrow>
     map fst info' = map fst info @ dbs"
proof (induction dbs arbitrary: info s)
  case Nil
  then show ?case by simp
next
  case (Cons db dbs)
  let ?info1 = "dict_set db (db_entry (fst (list_one D s db))) info"
  from Cons.prems(1) have k: "map fst ?info1 = map fst info @ [db]"
    by (intro keys_dict_set_new) auto
  from Cons.prems(1) have d: "distinct (map fst ?info1 @ dbs)" unfolding k by auto
  from Cons.prems(2) have "list_all_loop D dbs ?info1 (snd (list_one D s db)) = (info', s')"
    by (simp only: list_all_loop_step)
  from Cons.IH[OF d this] show ?case by (simp add: k)
qed

lemma distinct_databases: "distinct FILEMAKER_DATABASES"
  by (simp add: FILEMAKER_DATABASES_def)

lemma demo_list_one:
  "map (\<lambda>db. fst (list_one demo_driver (create_server demo_config) db)) FILEMAKER_DATABASES
     = [Inr [''Main''], Inr [''Main''], Inr [''Main''], Inl (OdbcError ''unreachable''),
        Inr [''Main''], Inr [''Main''], Inr [''Main''], Inr [''Main''], Inr [''Main''],
        Inr [''Main''], Inr [''Main''], Inr [''Main'']]"
  by (simp add: FILEMAKER_DATABASES_def list_one_def get_connection_def connect_def
      connection_string_def get_tables_def create_server_def demo_driver_def demo_config_def
      Let_def)

text \<open>
  Claim C2. When the connection or the table listing of exactly one database of the
  catalog fails, \<^verbatim>\<open>list_all_databases\<close> still answers with the success envelope: its
  \<^verbatim>\<open>databases\<close> object has one entry for every database of the catalog, in the catalog's
  order; the entry of the failing database has the single field \<^verbatim>\<open>error\<close> with the text
  of the exception, and the entry of every other database has its table list (and the
  number of tables).
\<close>

theorem list_all_databases_isolates_failure:
  assumes "bad \<in> set FILEMAKER_DATABASES"
    and "fst (list_one D s bad) = Inl e"
    and "\<forall>db \<in> set FILEMAKER_DATABASES. db \<noteq> bad \<longrightarrow> (\<exists>tables. fst (list_one D s db) = Inr tables)"
  shows "\<exists>info s'.
           call_tool D s ''list_all_databases'' a
             = (\<lparr>content = [text_content (JObj
                    [(''success'', JBool True), (''databases'', JObj info)])],
                 isError = False\<rparr>, s')
         \<and> map fst info = FILEMAKER_DATABASES
         \<and> map_of info bad = Some (JObj [(''error'', JStr (str_exn e))])
         \<and> (\<forall>db \<in> set FILEMAKER_DATABASES. db \<noteq> bad \<longrightarrow>
               (\<exists>tables. fst (list_one D s db) = Inr tables
                  \<and> map_of info db
                      = Some (JObj [(''tables'', JArr (map JStr tables)),
                                    (''count'', JInt (int (length tables)))])))"
proof -
  obtain info s' where run: "list_all_loop D FILEMAKER_DATABASES [] s = (info, s')"
    by (cases "list_all_loop D FILEMAKER_DATABASES [] s")
  have call: "call_tool D s ''list_all_databases'' a
             = (\<lparr>content = [text_content (JObj
                    [(''success'', JBool True), (''databases'', JObj info)])],
                 isError = False\<rparr>, s')"
    by (simp add: call_tool_def dispatch_def tool_list_all_databases_def run tool_result_def)
  from list_all_loop_entries[OF distinct_databases run]
  have entries: "\<forall>db \<in> set FILEMAKER_DATABASES.
      map_of info db = Some (db_entry (fst (list_one D s db)))"
    by simp
  have keys: "map fst info = FILEMAKER_DATABASES"
    using list_all_loop_keys[OF _ run] distinct_databases by simp
  have bad: "map_of info bad = Some (JObj [(''error'', JStr (str_exn e))])"
    using entries assms(1,2) by (simp add: db_entry_def)
  have others: "\<forall>db \<in> set FILEMAKER_DATABASES. db \<noteq> bad \<longrightarrow>
               (\<exists>tables. fst (list_one D s db) = Inr tables
                  \<and> map_of info db
                      = Some (JObj [(''tables'', JArr (map JStr tables)),
                                    (''count'', JInt (int (length tables)))]))"
  proof (intro ballI impI)
    fix db assume db: "db \<in> set FILEMAKER_DATABASES" "db \<noteq> bad"
    with assms(3) obtain tables where t: "fst (list_one D s db) = Inr tables" by blast
    with entries db(1) show "\<exists>tables. fst (list_one D s db) = Inr tables
                  \<and> map_of info db
                      = Some (JObj [(''tables'', JArr (map JStr tables)),
                                    (''count'', JInt (int (length tables)))])"
      by (simp add: db_entry_def)
  qed
  from call keys bad others show ?thesis by blast
qed

theorem list_all_databases_isolates_failure_witness:
  "''Email'' \<in> set FILEMAKER_DATABASES
   \<and> map (\<lambda>db. fst (list_one demo_driver (create_server demo_config) db)) FILEMAKER_DATABASES
     = [Inr [''Main''], Inr [''Main''], Inr [''Main''], Inl (OdbcError ''unreachable''),
        Inr [''Main''], Inr [''Main''], Inr [''Main''], Inr [''Main''], Inr [''Main''],
        Inr [''Main''], Inr [''Main''], Inr [''Main'']]
   \<and> (\<exists>info s'.
         call_tool demo_driver (create_server demo_config) ''list_all_databases'' no_arguments
           = (\<lparr>content = [text_content (JObj
                  [(''success'', JBool True), (''databases'', JObj info)])],
               isError = False\<rparr>, s')
       \<and> map fst info = FILEMAKER_DATABASES
       \<and> map_of info ''Email'' = Some (JObj [(''error'', JStr ''unreachable'')])
       \<and> map_of info ''Patients''
           = Some (JObj [(''tables'', JArr [JStr ''Main'']), (''count'', JInt 1)]))"
proof -
  have bad: "''Email'' \<in> set FILEMAKER_DATABASES"
    by (simp add: FILEMAKER_DATABASES_def)
  have fails: "fst (list_one demo_driver (create_server demo_config) ''Email'')
      = Inl (OdbcError ''unreachable'')"
    using demo_list_one by (simp add: FILEMAKER_DATABASES_def)
  have others: "\<forall>db \<in> set FILEMAKER_DATABASES. db \<noteq> ''Email'' \<longrightarrow>
      (\<exists>tables. fst (list_one demo_driver (create_server demo_config) db) = Inr tables)"
    using demo_list_one by (simp add: FILEMAKER_DATABASES_def)
  have patients: "fst (list_one demo_driver (create_server demo_config) ''Patients'') = Inr [''Main'']"
    using demo_list_one by (simp add: FILEMAKER_DATABASES_def)
  have p: "''Patients'' \<in> set FILEMAKER_DATABASES" "''Patients'' \<noteq> ''Email''"
    by (simp_all add: FILEMAKER_DATABASES_def)
  from list_all_databases_isolates_failure[OF bad fails others, of no_arguments]
  obtain info s' where r:
    "call_tool demo_driver (create_server demo_config) ''list_all_databases'' no_arguments
           = (\<lparr>content = [text_content (JObj
                  [(''success'', JBool True), (''databases'', JObj info)])],
               isError = False\<rparr>, s')"
    "map fst info = FILEMAKER_DATABASES"
    "map_of info ''Email'' = Some (JObj [(''error'', JStr (str_exn (OdbcError ''unreachable'')))])"
    "\<forall>db \<in> set FILEMAKER_DATABASES. db \<noteq> ''Email'' \<longrightarrow>
               (\<exists>tables. fst (list_one demo_driver (create_server demo_config) db) = Inr tables
                  \<and> map_of info db
                      = Some (JObj [(''tables'', JArr (map JStr tables)),
                                    (''count'', JInt (int (length tables)))]))"
    by blast
  from r(4) p patients
  have "map_of info ''Patients''
           = Some (JObj [(''tables'', JArr [JStr ''Main'']), (''count'', JInt 1)])"
    by auto
  with r(1,2,3) bad demo_list_one show ?thesis by auto
qed

section \<open>Searching patients\<close>

lemma like_percent_prefix:
  "sql_like (CHR ''%'' # p) subject \<longleftrightarrow> (\<exists>pre rest. subject = pre @ rest \<and> sql_like p rest)"
proof (induction subject)
  case Nil
  then show ?case by simp
next
  case (Cons c cs)
  have "sql_like (CHR ''%'' # p) (c # cs) \<longleftrightarrow> sql_like p (c # cs) \<or> sql_like (CHR ''%'' # p) cs"
    by simp
  also have "\<dots> \<longleftrightarrow> sql_like p (c # cs) \<or> (\<exists>pre rest. cs = pre @ rest \<and> sql_like p rest)"
    by (simp only: Cons.IH)
  also have "\<dots> \<longleftrightarrow> (\<exists>pre rest. c # cs = pre @ rest \<and> sql_like p rest)"
    by (auto simp: Cons_eq_append_conv)
  finally show ?case .
qed

lemma like_percent_all: "sql_like [CHR ''%''] subject"
  by (induction subject) simp_all

lemma split_cons:
  "(\<exists>mid post. c # cs = mid @ post \<and> P mid)
     \<longleftrightarrow> P [] \<or> (\<exists>m post. cs = m @ post \<and> P (c # m))"
  by (auto simp: Cons_eq_append_conv)

lemma like_percent_suffix:
  "sql_like (p @ [CHR ''%'']) subject \<longleftrightarrow> (\<exists>mid post. subject = mid @ post \<and> sql_like p mid)"
proof (induction p subject rule: sql_like.induct)
  case (1 subject)
  show ?case using like_percent_all[of subject] by simp
next
  case (2 p ps subject)
  show ?case
  proof (cases subject)
    case Nil
    show ?thesis
    proof (cases "p = CHR ''%''")
      case True
      with 2(1) Nil show ?thesis by simp
    next
      case False
      with Nil show ?thesis by simp
    qed
  next
    case (Cons c cs)
    show ?thesis
    proof (cases "p = CHR ''%''")
      case True
      have "sql_like ((p # ps) @ [CHR ''%'']) (c # cs)
          \<longleftrightarrow> sql_like (ps @ [CHR ''%'']) (c # cs) \<or> sql_like ((p # ps) @ [CHR ''%'']) cs"
        using True by simp
      also have "\<dots> \<longleftrightarrow> (\<exists>mid post. c # cs = mid @ post \<and> sql_like ps mid)
                        \<or> (\<exists>m post. cs = m @ post \<and> sql_like (p # ps) m)"
        using 2(1)[OF True] 2(2)[OF True Cons] Cons by simp
      also have "\<dots> \<longleftrightarrow> (sql_like ps [] \<or> (\<exists>m post. cs = m @ post \<and> sql_like ps (c # m)))
                        \<or> (\<exists>m post. cs = m @ post \<and> sql_like (p # ps) m)"
        by (simp only: split_cons)
      also have "\<dots> \<longleftrightarrow> sql_like (p # ps) []
                        \<or> (\<exists>m post. cs = m @ post \<and> sql_like (p # ps) (c # m))"
        using True by auto
      also have "\<dots> \<longleftrightarrow> (\<exists>mid post. c # cs = mid @ post \<and> sql_like (p # ps) mid)"
        by (simp only: split_cons)
      finally show ?thesis using Cons by simp
    next
      case False
      note np = False
      show ?thesis
      proof (cases "p = CHR ''_''")
        case True
        have "sql_like ((p # ps) @ [CHR ''%'']) (c # cs) \<longleftrightarrow> sql_like (ps @ [CHR ''%'']) cs"
          using True by simp
        also have "\<dots> \<longleftrightarrow> (\<exists>m post. cs = m @ post \<and> sql_like ps m)"
          using 2(3)[OF np True Cons] by simp
        also have "\<dots> \<longleftrightarrow> sql_like (p # ps) []
                        \<or> (\<exists>m post. cs = m @ post \<and> sql_like (p # ps) (c # m))"
          using True by simp
        also have "\<dots> \<longleftrightarrow> (\<exists>mid post. c # cs = mid @ post \<and> sql_like (p # ps) mid)"
          by (simp only: split_cons)
        finally show ?thesis using Cons by simp
      next
        case False
        have "sql_like ((p # ps) @ [CHR ''%'']) (c # cs) \<longleftrightarrow> c = p \<and> sql_like (ps @ [CHR ''%'']) cs"
          using np False by simp
        also have "\<dots> \<longleftrightarrow> c = p \<and> (\<exists>m post. cs = m @ post \<and> sql_like ps m)"
          using 2(4)[OF np False Cons] by simp
        also have "\<dots> \<longleftrightarrow> sql_like (p # ps) []
                        \<or> (\<exists>m post. cs = m @ post \<and> sql_like (p # ps) (c # m))"
          using np False by auto
        also have "\<dots> \<longleftrightarrow> (\<exists>mid post. c # cs = mid @ post \<and> sql_like (p # ps) mid)"
          by (simp only: split_cons)
        finally show ?thesis using Cons by simp
      qed
    qed
  qed
qed

lemma like_literal:
  "CHR ''%'' \<notin> set word \<Longrightarrow> CHR ''_'' \<notin> set word \<Longrightarrow> sql_like word mid \<longleftrightarrow> mid = word"
proof (induction word arbitrary: mid)
  case Nil
  then show ?case by auto
next
  case (Cons c cs)
  then show ?case by (cases mid) auto
qed

lemma like_wrapped:
  "sql_like (''%'' @ word @ ''%'') subject
     \<longleftrightarrow> (\<exists>pre mid post. subject = pre @ mid @ post \<and> sql_like word mid)"
proof -
  have "sql_like (''%'' @ word @ ''%'') subject
      \<longleftrightarrow> (\<exists>pre rest. subject = pre @ rest \<and> sql_like (word @ [CHR ''%'']) rest)"
    using like_percent_prefix[of "word @ [CHR ''%'']" subject] by simp
  also have "\<dots> \<longleftrightarrow> (\<exists>pre rest. subject = pre @ rest
                        \<and> (\<exists>mid post. rest = mid @ post \<and> sql_like word mid))"
    by (simp only: like_percent_suffix)
  also have "\<dots> \<longleftrightarrow> (\<exists>pre mid post. subject = pre @ mid @ post \<and> sql_like word mid)"
    by blast
  finally show ?thesis .
qed

lemma run_read_connects:
  assumes "run_read D s db sql params limit = (r, s')"
  shows "\<exists>new. trace s' = trace s @ new
       \<and> (\<forall>cs. Connect cs \<in> set new \<longrightarrow> cs = connection_string (fm_config s) db)
       \<and> (\<forall>h q p. Execute h q p \<in> set new \<longrightarrow> q = sql \<and> p = bound_params params)"
proof -
  obtain c s1 where c: "get_connection D s db = (c, s1)" by (cases "get_connection D s db")
  from get_connection_trace[OF c] obtain new1 where
    n1: "trace s1 = trace s @ new1" "\<forall>ev \<in> set new1. ev = Connect (connection_string (fm_config s) db)"
    by blast
  show ?thesis
  proof (cases c)
    case (Inl e)
    with assms c have "s' = s1" by (simp add: run_read_def)
    with n1 show ?thesis by auto
  next
    case (Inr conn)
    obtain q s2 where q: "execute_query D conn sql params limit s1 = (q, s2)"
      by (cases "execute_query D conn sql params limit s1")
    from assms c Inr q have "s' = s2" by (cases q) (simp_all add: run_read_def)
    moreover from execute_query_trace[OF q] obtain new2 where
      "trace s2 = trace s1 @ new2"
      "\<forall>ev \<in> set new2. (\<exists>h. ev = Execute h sql (bound_params params)) \<or> (\<exists>h. ev = Fetchmany h limit)"
      by blast
    ultimately show ?thesis using n1
      by (intro exI[of _ "new1 @ new2"]) auto
  qed
qed

lemma dispatch_search_patients:
  \<open>arg_search_term a = Some word \<Longrightarrow>
   dispatch D s ''search_patients'' a =
     run_read D s ''Patients''
       (search_patients_sql (case arg_field a of None \<Rightarrow> ''"Last Name"''
                             | Some f \<Rightarrow> f))
       (Some [StrV (''%'' @ word @ ''%'')])
       (case arg_limit a of None \<Rightarrow> 50 | Some l \<Rightarrow> l)\<close>
  by (simp add: dispatch_def tool_search_patients_def item_def search_patients_params_def)

lemma like_instance:
  "sql_like word
     (concat (map (\<lambda>c. if c = CHR ''%'' then [] else if c = CHR ''_'' then ''a'' else [c]) word))"
  by (induction word) simp_all

lemma instance_plain:
  "CHR ''%'' \<notin> set (concat (map (\<lambda>c. if c = CHR ''%'' then [] else if c = CHR ''_'' then ''a''
                                      else [c]) word))
   \<and> CHR ''_'' \<notin> set (concat (map (\<lambda>c. if c = CHR ''%'' then [] else if c = CHR ''_'' then ''a''
                                      else [c]) word))"
  by (induction word) auto

lemma like_not_literal:
  assumes "CHR ''%'' \<in> set word \<or> CHR ''_'' \<in> set word"
  shows "\<exists>subject. sql_like (''%'' @ word @ ''%'') subject
           \<and> \<not> (\<exists>pre post. subject = pre @ word @ post)"
proof -
  let ?subject = "concat (map (\<lambda>c. if c = CHR ''%'' then [] else if c = CHR ''_'' then ''a''
                                      else [c]) word)"
  have "sql_like (''%'' @ word @ ''%'') ?subject"
    unfolding like_wrapped using like_instance[of word]
    by (intro exI[of _ "[]"] exI[of _ ?subject]) simp
  moreover have "\<not> (\<exists>pre post. ?subject = pre @ word @ post)"
  proof
    assume "\<exists>pre post. ?subject = pre @ word @ post"
    then obtain pre post where "?subject = pre @ word @ post" by blast
    then have "set word \<subseteq> set ?subject" by (metis set_append sup_ge1 sup_ge2 subset_trans)
    with assms instance_plain[of word] show False by blast
  qed
  ultimately show ?thesis by blast
qed

text \<open>
  Claim C6, as amended. Whenever the connection to \<^verbatim>\<open>Patients\<close> is obtained, a
  \<^verbatim>\<open>search_patients\<close> call passes one statement to the driver, and no other: the
  fixed-column \<^verbatim>\<open>SELECT\<close> from \<^verbatim>\<open>Patients\<close> with the predicate \<^verbatim>\<open>field LIKE ?\<close> on the
  field that was selected (\<^verbatim>\<open>"Last Name"\<close> when none was), its one parameter the search
  term between two \<^verbatim>\<open>%\<close>, the term itself unchanged (nothing is escaped). It connects to
  no other database, and a failed connection is answered with the failure envelope. So
  the term is a pattern to the engine: a subject matches when some part of it matches the
  term as a \<^verbatim>\<open>LIKE\<close> pattern. That is the test for the term as a literal substring
  exactly when the term has neither \<^verbatim>\<open>%\<close> nor \<^verbatim>\<open>_\<close> in it: with one of them, some
  subject matches that does not contain the term.
\<close>

theorem search_patients_pattern:
  assumes "arg_search_term a = Some word"
  shows \<open>(\<forall>conn s1 h. get_connection D s ''Patients'' = (Inr conn, s1) \<and> connection conn = Some h \<longrightarrow>
           (\<exists>result s' rest. call_tool D s ''search_patients'' a = (result, s')
              \<and> trace s' = trace s1
                   @ Execute h
                       (search_patients_sql
                          (case arg_field a of None \<Rightarrow> ''"Last Name"'' | Some f \<Rightarrow> f))
                       (Some [StrV (''%'' @ word @ ''%'')])
                     # rest
              \<and> (rest = [] \<or> rest = [Fetchmany h (case arg_limit a of None \<Rightarrow> 50 | Some l \<Rightarrow> l)])))
       \<and> (\<forall>e s1. get_connection D s ''Patients'' = (Inl e, s1) \<longrightarrow>
             call_tool D s ''search_patients'' a
               = (\<lparr>content = [text_content (JObj
                      [(''success'', JBool False), (''error'', JStr (str_exn e))])],
                   isError = True\<rparr>, s1))
       \<and> (\<forall>result s'. call_tool D s ''search_patients'' a = (result, s') \<longrightarrow>
           (\<exists>new. trace s' = trace s @ new
              \<and> (\<forall>cs. Connect cs \<in> set new \<longrightarrow> cs = connection_string (fm_config s) ''Patients'')
              \<and> (\<forall>h q p. Execute h q p \<in> set new \<longrightarrow>
                    q = search_patients_sql
                          (case arg_field a of None \<Rightarrow> ''"Last Name"'' | Some f \<Rightarrow> f)
                  \<and> p = Some [StrV (''%'' @ word @ ''%'')])))
       \<and> (\<forall>field. search_patients_sql field
             = ''SELECT "Last Name", "First Name", "Middle Initial",'' @ [CHR 0x0A]
               @ replicate 25 (CHR '' '') @ ''"Street Address", "City", "State", "Zip",'' @ [CHR 0x0A]
               @ replicate 25 (CHR '' '') @ ''"Home Phone", "Work Phone", "birth date"'' @ [CHR 0x0A]
               @ replicate 25 (CHR '' '') @ ''FROM Patients WHERE '' @ field @ '' LIKE ?'')
       \<and> (\<forall>subject. sql_like (''%'' @ word @ ''%'') subject
              \<longleftrightarrow> (\<exists>pre mid post. subject = pre @ mid @ post \<and> sql_like word mid))
       \<and> (CHR ''%'' \<notin> set word \<and> CHR ''_'' \<notin> set word \<longrightarrow>
            (\<forall>subject. sql_like (''%'' @ word @ ''%'') subject
               \<longleftrightarrow> (\<exists>pre post. subject = pre @ word @ post)))
       \<and> (CHR ''%'' \<in> set word \<or> CHR ''_'' \<in> set word \<longrightarrow>
            (\<exists>subject. sql_like (''%'' @ word @ ''%'') subject
               \<and> \<not> (\<exists>pre post. subject = pre @ word @ post)))\<close>
  (is "?sends \<and> ?unreachable \<and> ?only \<and> ?text \<and> ?pattern \<and> ?literal \<and> ?wild")
proof (intro conjI)
  note d = dispatch_search_patients[OF assms, of D s]
  show ?sends
  proof (intro allI impI, elim conjE)
    fix conn s1 h
    assume c: "get_connection D s ''Patients'' = (Inr conn, s1)" "connection conn = Some h"
    from run_read_sends[OF c,
        of \<open>search_patients_sql (case arg_field a of None \<Rightarrow> ''"Last Name"'' | Some f \<Rightarrow> f)\<close>
          "Some [StrV (''%'' @ word @ ''%'')]"
          "case arg_limit a of None \<Rightarrow> 50 | Some l \<Rightarrow> l"]
    obtain r s' rest where r: "dispatch D s ''search_patients'' a = (r, s')"
      \<open>trace s' = trace s1
         @ Execute h (search_patients_sql (case arg_field a of None \<Rightarrow> ''"Last Name"'' | Some f \<Rightarrow> f))
             (bound_params (Some [StrV (''%'' @ word @ ''%'')])) # rest\<close>
      "rest = [] \<or> rest = [Fetchmany h (case arg_limit a of None \<Rightarrow> 50 | Some l \<Rightarrow> l)]"
      unfolding d by blast
    from call_tool_total[OF r(1)] obtain result where
      "call_tool D s ''search_patients'' a = (result, s')" by blast
    with r(2,3) show \<open>\<exists>result s' rest. call_tool D s ''search_patients'' a = (result, s')
              \<and> trace s' = trace s1
                   @ Execute h
                       (search_patients_sql
                          (case arg_field a of None \<Rightarrow> ''"Last Name"'' | Some f \<Rightarrow> f))
                       (Some [StrV (''%'' @ word @ ''%'')])
                     # rest
              \<and> (rest = [] \<or> rest = [Fetchmany h (case arg_limit a of None \<Rightarrow> 50 | Some l \<Rightarrow> l)])\<close>
      by (simp add: bound_params_def)
  qed
  show ?unreachable
    by (simp add: call_tool_raises d run_read_unreachable)
  show ?only
  proof (intro allI impI)
    fix result s'
    assume "call_tool D s ''search_patients'' a = (result, s')"
    then obtain r where r: "dispatch D s ''search_patients'' a = (r, s')"
      using call_tool_state by blast
    from run_read_connects[OF r[unfolded d]]
    show \<open>\<exists>new. trace s' = trace s @ new
              \<and> (\<forall>cs. Connect cs \<in> set new \<longrightarrow> cs = connection_string (fm_config s) ''Patients'')
              \<and> (\<forall>h q p. Execute h q p \<in> set new \<longrightarrow>
                    q = search_patients_sql
                          (case arg_field a of None \<Rightarrow> ''"Last Name"'' | Some f \<Rightarrow> f)
                  \<and> p = Some [StrV (''%'' @ word @ ''%'')])\<close>
      by (simp add: bound_params_def)
  qed
  show ?text
    unfolding search_patients_sql_def by (intro allI refl)
  show ?pattern
    by (intro allI) (rule like_wrapped)
  show ?literal
  proof (intro impI allI)
    fix subject
    assume "CHR ''%'' \<notin> set word \<and> CHR ''_'' \<notin> set word"
    then have "\<And>mid. sql_like word mid \<longleftrightarrow> mid = word"
      by (simp add: like_literal)
    then show "sql_like (''%'' @ word @ ''%'') subject \<longleftrightarrow> (\<exists>pre post. subject = pre @ word @ post)"
      by (simp only: like_wrapped) blast
  qed
  show ?wild
    using like_not_literal by blast
qed

theorem search_patients_pattern_witness:
  \<open>arg_search_term (no_arguments\<lparr>arg_search_term := Some ''Sm%th''\<rparr>) = Some ''Sm%th''
   \<and> trace (snd (call_tool demo_driver (create_server demo_config) ''search_patients''
        (no_arguments\<lparr>arg_search_term := Some ''Sm%th''\<rparr>)))
      = [Connect ''DSN=FileMaker;ServerDataSource=Patients'',
         Execute \<lparr>serial = 0, source = ''DSN=FileMaker;ServerDataSource=Patients''\<rparr>
           (search_patients_sql ''"Last Name"'') (Some [StrV ''%Sm%th%'']),
         Fetchmany \<lparr>serial = 0, source = ''DSN=FileMaker;ServerDataSource=Patients''\<rparr> 50]
   \<and> arg_search_term (no_arguments\<lparr>arg_search_term := Some ''Smith'', arg_field := Some ''City''\<rparr>)
       = Some ''Smith''
   \<and> get_connection demo_driver (create_server demo_config) ''Patients''
       = (Inr demo_connection, demo_server)
   \<and> connection demo_connection
       = Some \<lparr>serial = 0, source = ''DSN=FileMaker;ServerDataSource=Patients''\<rparr>
   \<and> trace (snd (call_tool demo_driver (create_server demo_config) ''search_patients''
        (no_arguments\<lparr>arg_search_term := Some ''Smith'', arg_field := Some ''City''\<rparr>)))
      = [Connect ''DSN=FileMaker;ServerDataSource=Patients'',
         Execute \<lparr>serial = 0, source = ''DSN=FileMaker;ServerDataSource=Patients''\<rparr>
           (search_patients_sql ''City'') (Some [StrV ''%Smith%'']),
         Fetchmany \<lparr>serial = 0, source = ''DSN=FileMaker;ServerDataSource=Patients''\<rparr> 50]
   \<and> CHR ''%'' \<notin> set ''Smith'' \<and> CHR ''_'' \<notin> set ''Smith''
   \<and> sql_like ''%Smith%'' ''Smith-Jones''
   \<and> CHR ''%'' \<in> set ''Sm%th''
   \<and> (\<exists>subject. sql_like ''%Sm%th%'' subject
         \<and> \<not> (\<exists>pre post. subject = pre @ ''Sm%th'' @ post))\<close>
proof -
  let ?h = "\<lparr>serial = 0, source = ''DSN=FileMaker;ServerDataSource=Patients''\<rparr>"
  let ?a1 = "no_arguments\<lparr>arg_search_term := Some ''Sm%th''\<rparr>"
  let ?a2 = "no_arguments\<lparr>arg_search_term := Some ''Smith'', arg_field := Some ''City''\<rparr>"
  have a1: "arg_search_term ?a1 = Some ''Sm%th''" by simp
  have a2: "arg_search_term ?a2 = Some ''Smith''" by simp
  have h: "connection demo_connection = Some ?h"
    by (simp add: demo_connection_def)
  have run1: \<open>trace (snd (call_tool demo_driver (create_server demo_config) ''search_patients'' ?a1))
      = [Connect ''DSN=FileMaker;ServerDataSource=Patients'',
         Execute ?h (search_patients_sql ''"Last Name"'') (Some [StrV ''%Sm%th%'']),
         Fetchmany ?h 50]\<close>
    by (simp add: call_tool_def dispatch_def tool_search_patients_def item_def no_arguments_def
        search_patients_params_def run_read_def get_connection_def connect_def
        connection_string_def execute_query_def bound_params_def create_server_def
        demo_driver_def demo_config_def demo_cursor_def Let_def)
  note t2 = search_patients_pattern[OF a2, of demo_driver "create_server demo_config"]
  from t2[THEN conjunct1, rule_format, OF conjI[OF demo_get_connection h]]
  obtain result s' rest where sent:
    "call_tool demo_driver (create_server demo_config) ''search_patients'' ?a2 = (result, s')"
    "trace s' = trace demo_server
       @ Execute ?h (search_patients_sql (case arg_field ?a2 of None \<Rightarrow> [] | Some f \<Rightarrow> f))
           (Some [StrV (''%'' @ ''Smith'' @ ''%'')]) # rest"
    "rest = [] \<or> rest = [Fetchmany ?h (case arg_limit ?a2 of None \<Rightarrow> 50 | Some l \<Rightarrow> l)]"
    by (auto simp: no_arguments_def)
  have run2: "trace (snd (call_tool demo_driver (create_server demo_config) ''search_patients'' ?a2))
      = [Connect ''DSN=FileMaker;ServerDataSource=Patients'',
         Execute ?h (search_patients_sql ''City'') (Some [StrV ''%Smith%'']),
         Fetchmany ?h 50]"
    by (simp add: call_tool_def dispatch_def tool_search_patients_def item_def no_arguments_def
        search_patients_params_def run_read_def get_connection_def connect_def
        connection_string_def execute_query_def bound_params_def create_server_def
        demo_driver_def demo_config_def demo_cursor_def Let_def)
  have lit: "CHR ''%'' \<notin> set ''Smith'' \<and> CHR ''_'' \<notin> set ''Smith''"
    by simp
  have "\<exists>pre post. ''Smith-Jones'' = pre @ ''Smith'' @ post"
    by (intro exI[of _ "[]"] exI[of _ "''-Jones''"]) simp
  with t2 lit have smith: "sql_like (''%'' @ ''Smith'' @ ''%'') ''Smith-Jones''"
    by blast
  have w: "CHR ''%'' \<in> set ''Sm%th''" by simp
  with search_patients_pattern[OF a1, of demo_driver "create_server demo_config"]
  have wild: "\<exists>subject. sql_like (''%'' @ ''Sm%th'' @ ''%'') subject
         \<and> \<not> (\<exists>pre post. subject = pre @ ''Sm%th'' @ post)"
    by blast
  from a1 a2 run1 run2 demo_get_connection h lit smith w wild sent(1)
  show ?thesis by simp
qed

text \<open>
  The claim as stated fails: for the term \<^verbatim>\<open>Sm%th\<close> the parameter is \<^verbatim>\<open>%Sm%th%\<close>,
  which matches \<^verbatim>\<open>Smooth\<close>, a subject that has no \<^verbatim>\<open>%\<close> in it and so does not contain the
  term.
\<close>

theorem search_patients_wildcard_counterexample:
  "search_patients_params ''Sm%th'' = [StrV ''%Sm%th%'']
   \<and> sql_like ''%Sm%th%'' ''Smooth''
   \<and> CHR ''%'' \<notin> set ''Smooth''"
  by (simp add: search_patients_params_def)

end
